theory Spec2Isabelle
  imports Complex_Main "HOL-Library.AList"
begin

section \<open>Python values and exceptions\<close>

text \<open>
  The values that \<^verbatim>\<open>ast.literal_eval\<close> can return. Floats are kept abstract
  (type variable \<open>'f\<close>): the program only stores them and passes them to
  \<^verbatim>\<open>float()\<close> and \<^verbatim>\<open>int()\<close>. A dict is an association list in insertion
  order.
\<close>

datatype 'f pyval =
    PNone
  | PBool bool
  | PInt int
  | PFloat 'f
  | PComplex 'f 'f
  | PStr string
  | PBytes string
  | PEllipsis
  | PList "'f pyval list"
  | PTuple "'f pyval list"
  | PSet "'f pyval list"
  | PDict "('f pyval \<times> 'f pyval) list"

text \<open>Exceptions are values; the string is the message \<^verbatim>\<open>str(e)\<close>.\<close>

datatype error =
    ValueError string
  | SyntaxError string
  | TypeError string
  | AttributeError string
  | KeyError string
  | OverflowError string
  | EmptyDataError string
  | OtherException string

text \<open>A text between single quotes, as \<^verbatim>\<open>repr\<close> prints a plain string.\<close>

definition quoted :: "string \<Rightarrow> string" where
  "quoted s = [CHR 0x27] @ s @ [CHR 0x27]"

definition bind_err :: "error + 'a \<Rightarrow> ('a \<Rightarrow> error + 'b) \<Rightarrow> error + 'b" where
  "bind_err m k = (case m of Inl e \<Rightarrow> Inl e | Inr x \<Rightarrow> k x)"

text \<open>
  One row of \<^verbatim>\<open>most_recent_matches.csv\<close>, with the eighteen columns the program
  writes. A cell holds any value; a file with other columns is not represented.
\<close>

record 'f snapshot_row =
  r_matchId :: "'f pyval"
  r_timestamp :: "'f pyval"
  r_timeAgo :: "'f pyval"
  r_club_id :: "'f pyval"
  r_player_id :: "'f pyval"
  r_player_name :: "'f pyval"
  r_position :: "'f pyval"
  r_rating :: "'f pyval"
  r_goals :: "'f pyval"
  r_assists :: "'f pyval"
  r_shots :: "'f pyval"
  r_passes_made :: "'f pyval"
  r_pass_attempts :: "'f pyval"
  r_tackles_made :: "'f pyval"
  r_tackle_attempts :: "'f pyval"
  r_saves :: "'f pyval"
  r_seconds_played :: "'f pyval"
  r_score :: "'f pyval"

text \<open>
  The library functions the program calls but does not define. They are parameters of
  the model: every theorem below that quantifies over \<open>b\<close> holds for any behaviour of
  these functions, that of CPython and pandas included. \<open>read_csv b rows\<close> is what
  \<^verbatim>\<open>pd.read_csv\<close> returns for the file that \<^verbatim>\<open>to_csv\<close> wrote from \<open>rows\<close>: the
  cells come back with the types inferred from their text, column by column.
\<close>

record 'f builtins =
  literal_eval :: "string \<Rightarrow> error + 'f pyval"
  int_of_str :: "string \<Rightarrow> error + int"
  int_of_bytes :: "string \<Rightarrow> error + int"
  int_of_float :: "'f \<Rightarrow> error + int"
  float_of_int :: "int \<Rightarrow> error + 'f"
  float_of_str :: "string \<Rightarrow> error + 'f"
  float_of_bytes :: "string \<Rightarrow> error + 'f"
  astype_str :: "'f pyval \<Rightarrow> string"
  read_csv :: "'f snapshot_row list \<Rightarrow> error + 'f snapshot_row list"

definition type_name :: "'f pyval \<Rightarrow> string" where
  "type_name v = (case v of
      PNone \<Rightarrow> ''NoneType'' | PBool _ \<Rightarrow> ''bool'' | PInt _ \<Rightarrow> ''int''
    | PFloat _ \<Rightarrow> ''float'' | PComplex _ _ \<Rightarrow> ''complex'' | PStr _ \<Rightarrow> ''str''
    | PBytes _ \<Rightarrow> ''bytes'' | PEllipsis \<Rightarrow> ''ellipsis'' | PList _ \<Rightarrow> ''list''
    | PTuple _ \<Rightarrow> ''tuple'' | PSet _ \<Rightarrow> ''set'' | PDict _ \<Rightarrow> ''dict'')"

definition int_type_error :: "'f pyval \<Rightarrow> error" where
  "int_type_error v = TypeError
     (''int() argument must be a string, a bytes-like object or a real number, not '' @
      quoted (type_name v))"

definition float_type_error :: "'f pyval \<Rightarrow> error" where
  "float_type_error v = TypeError
     (''float() argument must be a string or a real number, not '' @ quoted (type_name v))"

text \<open>\<^verbatim>\<open>int(v)\<close>\<close>

definition py_int :: "'f builtins \<Rightarrow> 'f pyval \<Rightarrow> error + int" where
  "py_int b v = (case v of
      PInt n \<Rightarrow> Inr n
    | PBool t \<Rightarrow> Inr (if t then 1 else 0)
    | PFloat x \<Rightarrow> int_of_float b x
    | PStr s \<Rightarrow> int_of_str b s
    | PBytes s \<Rightarrow> int_of_bytes b s
    | _ \<Rightarrow> Inl (int_type_error v))"

text \<open>\<^verbatim>\<open>float(v)\<close>\<close>

definition py_float :: "'f builtins \<Rightarrow> 'f pyval \<Rightarrow> error + 'f" where
  "py_float b v = (case v of
      PFloat x \<Rightarrow> Inr x
    | PInt n \<Rightarrow> float_of_int b n
    | PBool t \<Rightarrow> float_of_int b (if t then 1 else 0)
    | PStr s \<Rightarrow> float_of_str b s
    | PBytes s \<Rightarrow> float_of_bytes b s
    | _ \<Rightarrow> Inl (float_type_error v))"

definition no_attribute :: "'f pyval \<Rightarrow> string \<Rightarrow> error" where
  "no_attribute v a = AttributeError
     (quoted (type_name v) @ '' object has no attribute '' @ quoted a)"

text \<open>\<^verbatim>\<open>v.items()\<close>: only a dict has the method.\<close>

definition items :: "'f pyval \<Rightarrow> error + ('f pyval \<times> 'f pyval) list" where
  "items v = (case v of PDict d \<Rightarrow> Inr d | _ \<Rightarrow> Inl (no_attribute v ''items''))"

text \<open>\<^verbatim>\<open>v.get(key, default)\<close> with a string key.\<close>

definition get :: "'f pyval \<Rightarrow> string \<Rightarrow> 'f pyval \<Rightarrow> error + 'f pyval" where
  "get v k d = (case v of
      PDict al \<Rightarrow> Inr (case map_of al (PStr k) of None \<Rightarrow> d | Some x \<Rightarrow> x)
    | _ \<Rightarrow> Inl (no_attribute v ''get''))"

section \<open>The data classes\<close>

record 'f PlayerStats =
  player_id :: "'f pyval"
  player_name :: "'f pyval"
  club_id :: "'f pyval"
  position :: "'f pyval"
  archetype_id :: "'f pyval"
  rating :: 'f
  goals :: int
  assists :: int
  shots :: int
  passes_made :: int
  pass_attempts :: int
  tackles_made :: int
  tackle_attempts :: int
  saves :: int
  seconds_played :: int
  score :: int
  wins :: int
  losses :: int
  red_cards :: int
  user_result :: int

record 'f MatchData =
  match_id :: string
  timestamp :: string
  time_ago :: string
  players_by_club :: "('f pyval \<times> 'f PlayerStats list) list"

text \<open>\<^verbatim>\<open>MatchData.get_all_players\<close>\<close>

definition get_all_players :: "'f MatchData \<Rightarrow> 'f PlayerStats list" where
  "get_all_players m = concat (map snd (players_by_club m))"

record 'f MostRecentMatch =
  mr_match_id :: string
  mr_timestamp :: string
  mr_time_ago :: string
  mr_players :: "'f PlayerStats list"
  is_new :: bool

section \<open>Row normalisation\<close>

text \<open>
  \<^verbatim>\<open>float(player_stats.get(k, 0))\<close> and \<^verbatim>\<open>int(player_stats.get(k, 0))\<close>, the
  expressions of lines 121-135.
\<close>

definition float_field :: "'f builtins \<Rightarrow> 'f pyval \<Rightarrow> string \<Rightarrow> error + 'f" where
  "float_field b st k = bind_err (get st k (PInt 0)) (py_float b)"

definition int_field :: "'f builtins \<Rightarrow> 'f pyval \<Rightarrow> string \<Rightarrow> error + int" where
  "int_field b st k = bind_err (get st k (PInt 0)) (py_int b)"

text \<open>
  The construction of one \<^verbatim>\<open>PlayerStats\<close> (lines 115-136). The keyword arguments are
  evaluated in the order written, so the first failing call decides the exception.
\<close>

definition player_of ::
  "'f builtins \<Rightarrow> 'f pyval \<Rightarrow> 'f pyval \<Rightarrow> 'f pyval \<Rightarrow> error + 'f PlayerStats" where
  "player_of b cid pid st =
     bind_err (get st ''playername'' (PStr ''Unknown'')) (\<lambda>v_name.
     bind_err (get st ''pos'' (PStr ''Unknown'')) (\<lambda>v_pos.
     bind_err (get st ''archetypeid'' (PStr ''0'')) (\<lambda>v_arch.
     bind_err (float_field b st ''rating'') (\<lambda>v_rating.
     bind_err (int_field b st ''goals'') (\<lambda>v_goals.
     bind_err (int_field b st ''assists'') (\<lambda>v_assists.
     bind_err (int_field b st ''shots'') (\<lambda>v_shots.
     bind_err (int_field b st ''passesmade'') (\<lambda>v_pm.
     bind_err (int_field b st ''passattempts'') (\<lambda>v_pa.
     bind_err (int_field b st ''tacklesmade'') (\<lambda>v_tm.
     bind_err (int_field b st ''tackleattempts'') (\<lambda>v_ta.
     bind_err (int_field b st ''saves'') (\<lambda>v_saves.
     bind_err (int_field b st ''secondsPlayed'') (\<lambda>v_secs.
     bind_err (int_field b st ''SCORE'') (\<lambda>v_score.
     bind_err (int_field b st ''wins'') (\<lambda>v_wins.
     bind_err (int_field b st ''losses'') (\<lambda>v_losses.
     bind_err (int_field b st ''redcards'') (\<lambda>v_red.
     bind_err (int_field b st ''userResult'') (\<lambda>v_ur.
     Inr \<lparr> player_id = pid, player_name = v_name, club_id = cid, position = v_pos,
           archetype_id = v_arch, rating = v_rating, goals = v_goals,
           assists = v_assists, shots = v_shots, passes_made = v_pm,
           pass_attempts = v_pa, tackles_made = v_tm, tackle_attempts = v_ta,
           saves = v_saves, seconds_played = v_secs, score = v_score, wins = v_wins,
           losses = v_losses, red_cards = v_red, user_result = v_ur \<rparr>
     ))))))))))))))))))"

text \<open>The inner loop (lines 114-137): the players of one club, in dict order.\<close>

fun club_players_of ::
  "'f builtins \<Rightarrow> 'f pyval \<Rightarrow> ('f pyval \<times> 'f pyval) list \<Rightarrow> error + 'f PlayerStats list" where
  "club_players_of b cid [] = Inr []"
| "club_players_of b cid ((pid, st) # rest) =
     bind_err (player_of b cid pid st) (\<lambda>p.
     bind_err (club_players_of b cid rest) (\<lambda>ps. Inr (p # ps)))"

text \<open>
  The outer loop (lines 111-137). \<open>acc\<close> is the dict \<^verbatim>\<open>players_by_club\<close>;
  \<^verbatim>\<open>players_by_club[club_id] = []\<close> followed by the appends is one dict store of the
  finished list.
\<close>

fun clubs_of ::
  "'f builtins \<Rightarrow> ('f pyval \<times> 'f pyval) list \<Rightarrow> ('f pyval \<times> 'f PlayerStats list) list
     \<Rightarrow> error + ('f pyval \<times> 'f PlayerStats list) list" where
  "clubs_of b [] acc = Inr acc"
| "clubs_of b ((cid, cp) # rest) acc =
     bind_err (items cp) (\<lambda>its.
     bind_err (club_players_of b cid its) (\<lambda>ps.
     clubs_of b rest (AList.update cid ps acc)))"

text \<open>
  A row of the input table: column name to \<^verbatim>\<open>str(cell)\<close>. \<^verbatim>\<open>row[c]\<close> raises
  \<^verbatim>\<open>KeyError\<close> when the table has no column \<open>c\<close>.
\<close>

type_synonym raw_row = "(string \<times> string) list"

definition row_get :: "raw_row \<Rightarrow> string \<Rightarrow> error + string" where
  "row_get row c =
     (case map_of row c of None \<Rightarrow> Inl (KeyError (quoted c)) | Some s \<Rightarrow> Inr s)"

text \<open>
  Lines 103-106: \<^verbatim>\<open>ValueError\<close> and \<^verbatim>\<open>SyntaxError\<close> of the literal parser are
  caught and raised again as one \<^verbatim>\<open>ValueError\<close>; anything else passes through.
\<close>

definition parse_players_text :: "'f builtins \<Rightarrow> string \<Rightarrow> error + 'f pyval" where
  "parse_players_text b s = (case literal_eval b s of
      Inl (ValueError m) \<Rightarrow> Inl (ValueError (''Could not parse players data: '' @ m))
    | Inl (SyntaxError m) \<Rightarrow> Inl (ValueError (''Could not parse players data: '' @ m))
    | Inl e \<Rightarrow> Inl e
    | Inr v \<Rightarrow> Inr v)"

text \<open>\<^verbatim>\<open>MatchPlayerParser._parse_match_row\<close>\<close>

definition parse_match_row :: "'f builtins \<Rightarrow> raw_row \<Rightarrow> error + 'f MatchData" where
  "parse_match_row b row =
     bind_err (row_get row ''matchId'') (\<lambda>mid.
     bind_err (row_get row ''timestamp'') (\<lambda>ts.
     bind_err (row_get row ''timeAgo'') (\<lambda>ago.
     bind_err (row_get row ''players'') (\<lambda>players_str.
     bind_err (parse_players_text b players_str) (\<lambda>players_data.
     bind_err (items players_data) (\<lambda>its.
     bind_err (clubs_of b its []) (\<lambda>pbc.
     Inr \<lparr> match_id = mid, timestamp = ts, time_ago = ago, players_by_club = pbc \<rparr>
     )))))))"

section \<open>The parser object and the snapshot file\<close>

text \<open>The mutable fields of \<^verbatim>\<open>MatchPlayerParser\<close> (the two file paths are fixed).\<close>

record 'f parser =
  matches :: "'f MatchData list"
  most_recent_match :: "'f MostRecentMatch option"
  new_matches_detected :: bool

text \<open>\<^verbatim>\<open>MatchPlayerParser.__init__\<close>\<close>

definition init_parser :: "'f parser" where
  "init_parser = \<lparr> matches = [], most_recent_match = None, new_matches_detected = False \<rparr>"

text \<open>
  The loop of \<^verbatim>\<open>parse_csv\<close> (lines 85-91) over the rows from index \<open>i\<close> on. A row
  that raises is skipped; the printed line \<^verbatim>\<open>Error parsing row {idx}: {e}\<close> is kept
  as the pair \<open>(idx, e)\<close>.
\<close>

fun parse_rows ::
  "'f builtins \<Rightarrow> nat \<Rightarrow> raw_row list \<Rightarrow> 'f MatchData list \<Rightarrow> (nat \<times> error) list
     \<Rightarrow> 'f MatchData list \<times> (nat \<times> error) list" where
  "parse_rows b i [] ms lg = (ms, lg)"
| "parse_rows b i (r # rs) ms lg =
     (case parse_match_row b r of
        Inr m \<Rightarrow> parse_rows b (Suc i) rs (ms @ [m]) lg
      | Inl e \<Rightarrow> parse_rows b (Suc i) rs ms (lg @ [(i, e)]))"

text \<open>\<^verbatim>\<open>MatchPlayerParser.parse_csv\<close>, given the rows of the table read from disk.\<close>

definition parse_csv ::
  "'f builtins \<Rightarrow> 'f parser \<Rightarrow> raw_row list \<Rightarrow> 'f parser \<times> (nat \<times> error) list" where
  "parse_csv b st rows =
     (case parse_rows b 0 rows (matches st) [] of
        (ms, lg) \<Rightarrow> (st\<lparr>matches := ms\<rparr>, lg))"

text \<open>
  The file \<^verbatim>\<open>most_recent_matches.csv\<close>: absent; one that cannot be read (the
  exception is not caught); the file written from a frame without columns, which
  \<^verbatim>\<open>pd.DataFrame([])\<close> is; or the file written by \<^verbatim>\<open>to_csv\<close> from the given rows
  under the eighteen column names. The file holds text: the rows say what was written,
  not what a later read returns.
\<close>

datatype 'f snapshot_file =
    NotFound
  | Unreadable error
  | NoColumns
  | Table "'f snapshot_row list"

text \<open>
  \<^verbatim>\<open>MatchPlayerParser.load_most_recent_matches\<close>. Only \<^verbatim>\<open>FileNotFoundError\<close> is
  caught; a file without columns makes \<^verbatim>\<open>pd.read_csv\<close> raise
  \<^verbatim>\<open>EmptyDataError\<close>.
\<close>

definition load_most_recent_matches ::
  "'f builtins \<Rightarrow> 'f snapshot_file \<Rightarrow> error + 'f snapshot_row list option" where
  "load_most_recent_matches b f = (case f of
      NotFound \<Rightarrow> Inr None
    | Unreadable e \<Rightarrow> Inl e
    | NoColumns \<Rightarrow> Inl (EmptyDataError ''No columns to parse from file'')
    | Table written \<Rightarrow> bind_err (read_csv b written) (\<lambda>df. Inr (Some df)))"

text \<open>\<^verbatim>\<open>MatchPlayerParser.check_for_new_matches\<close>: the returned flag and the object.\<close>

definition check_for_new_matches ::
  "'f builtins \<Rightarrow> 'f parser \<Rightarrow> 'f snapshot_file \<Rightarrow> error + bool \<times> 'f parser" where
  "check_for_new_matches b st f =
     (if matches st = [] then Inr (False, st)
      else bind_err (load_most_recent_matches b f) (\<lambda>most_recent_df.
        case most_recent_df of
          None \<Rightarrow> Inr (True, st\<lparr>new_matches_detected := True\<rparr>)
        | Some df \<Rightarrow>
            (let existing_match_ids = set (map (\<lambda>r. astype_str b (r_matchId r)) df);
                 current_match_ids = set (map match_id (matches st));
                 new_match_ids = current_match_ids - existing_match_ids
             in if new_match_ids \<noteq> {}
                then Inr (True, st\<lparr>new_matches_detected := True\<rparr>)
                else Inr (False, st\<lparr>new_matches_detected := False\<rparr>))))"

text \<open>The dict appended to \<^verbatim>\<open>current_matches_data\<close> (lines 197-216).\<close>

definition row_of :: "'f MatchData \<Rightarrow> 'f PlayerStats \<Rightarrow> 'f snapshot_row" where
  "row_of m p =
     \<lparr> r_matchId = PStr (match_id m), r_timestamp = PStr (timestamp m),
       r_timeAgo = PStr (time_ago m), r_club_id = club_id p, r_player_id = player_id p,
       r_player_name = player_name p, r_position = position p,
       r_rating = PFloat (rating p), r_goals = PInt (goals p),
       r_assists = PInt (assists p), r_shots = PInt (shots p),
       r_passes_made = PInt (passes_made p), r_pass_attempts = PInt (pass_attempts p),
       r_tackles_made = PInt (tackles_made p),
       r_tackle_attempts = PInt (tackle_attempts p), r_saves = PInt (saves p),
       r_seconds_played = PInt (seconds_played p), r_score = PInt (score p) \<rparr>"

text \<open>Lines 193-216: matches, then clubs, then players, in iteration order.\<close>

definition current_matches_data :: "'f MatchData list \<Rightarrow> 'f snapshot_row list" where
  "current_matches_data ms =
     concat (map (\<lambda>m. concat (map (\<lambda>(cid, ps). map (row_of m) ps) (players_by_club m))) ms)"

definition row_key :: "'f snapshot_row \<Rightarrow> 'f pyval \<times> 'f pyval" where
  "row_key r = (r_matchId r, r_player_id r)"

text \<open>
  \<^verbatim>\<open>drop_duplicates(subset=['matchId', 'player_id'], keep='last')\<close>: a row stays
  when no later row has its key. Two keys are the same when their cells are the same
  values; the text \<open>'42'\<close> of a row of the run and the number \<open>42\<close> that
  \<^verbatim>\<open>read_csv\<close> makes of it are different cells.
\<close>

fun drop_duplicates :: "'f snapshot_row list \<Rightarrow> 'f snapshot_row list" where
  "drop_duplicates [] = []"
| "drop_duplicates (r # rs) =
     (if row_key r \<in> row_key ` set rs then drop_duplicates rs else r # drop_duplicates rs)"

text \<open>
  \<^verbatim>\<open>MatchPlayerParser.update_most_recent_matches\<close>: the file
  \<^verbatim>\<open>most_recent_matches.csv\<close> afterwards. With a snapshot the frame read from disk
  is concatenated with the rows of the run and written without the earlier rows of a
  repeated key; the concatenation has the columns of the snapshot even when the run
  has no row. Without a snapshot the rows of the run are written as they are, and a run
  with no row writes a frame without columns. A failing write is not modelled.
\<close>

definition update_most_recent_matches ::
  "'f builtins \<Rightarrow> 'f parser \<Rightarrow> 'f snapshot_file \<Rightarrow> error + 'f snapshot_file" where
  "update_most_recent_matches b st f =
     (if matches st = [] then Inr f
      else bind_err (load_most_recent_matches b f) (\<lambda>most_recent_df.
        case most_recent_df of
          Some df \<Rightarrow> Inr (Table (drop_duplicates (df @ current_matches_data (matches st))))
        | None \<Rightarrow>
            Inr (if current_matches_data (matches st) = [] then NoColumns
                 else Table (current_matches_data (matches st)))))"

text \<open>\<^verbatim>\<open>MatchPlayerParser.get_most_recent_match\<close>: the result and the object.\<close>

definition get_most_recent_match ::
  "'f parser \<Rightarrow> 'f MostRecentMatch option \<times> 'f parser" where
  "get_most_recent_match st = (case matches st of
      [] \<Rightarrow> (None, st)
    | most_recent_raw # _ \<Rightarrow>
        (let mr = \<lparr> mr_match_id = match_id most_recent_raw,
                    mr_timestamp = timestamp most_recent_raw,
                    mr_time_ago = time_ago most_recent_raw,
                    mr_players = get_all_players most_recent_raw,
                    is_new = new_matches_detected st \<rparr>
         in (Some mr, st\<lparr>most_recent_match := Some mr\<rparr>)))"

text \<open>
  \<^verbatim>\<open>MatchPlayerParser.main\<close> without its prints and its two exports: the returned
  match, the object, the snapshot file and the skipped rows.
\<close>

definition main ::
  "'f builtins \<Rightarrow> 'f parser \<Rightarrow> raw_row list \<Rightarrow> 'f snapshot_file
     \<Rightarrow> error + 'f MostRecentMatch option \<times> 'f parser \<times> 'f snapshot_file \<times> (nat \<times> error) list" where
  "main b st rows f =
     (case parse_csv b st rows of (st1, lg) \<Rightarrow>
        bind_err (check_for_new_matches b st1 f) (\<lambda>(has_new_matches, st2).
        bind_err (if has_new_matches then update_most_recent_matches b st2 f else Inr f) (\<lambda>f'.
        case get_most_recent_match st2 of (most_recent, st3) \<Rightarrow>
          Inr (most_recent, st3, f', lg))))"

text \<open>The keys read with \<^verbatim>\<open>int(...)\<close>, in the order of lines 122-135.\<close>

definition int_field_keys :: "string list" where
  "int_field_keys =
     [''goals'', ''assists'', ''shots'', ''passesmade'', ''passattempts'', ''tacklesmade'',
      ''tackleattempts'', ''saves'', ''secondsPlayed'', ''SCORE'', ''wins'', ''losses'',
      ''redcards'', ''userResult'']"

section \<open>The merge as the specification words it\<close>



section \<open>A reference instance of the library functions\<close>

text \<open>
  An executable instance for the worked examples. It answers like CPython (3.11, whose
  messages it quotes) on a fragment and says so elsewhere: the exception
  \<open>unmodelled\<close> marks an input outside the fragment, where nothing is asserted
  about what CPython does. Floats are the rationals they denote; only integers of
  magnitude at most \<open>2 ^ 53\<close> are converted, which are exact as doubles.
\<close>

definition unmodelled :: error where
  "unmodelled = OtherException ''outside the modelled fragment''"

definition is_digit :: "char \<Rightarrow> bool" where
  "is_digit c = (c \<in> set ''0123456789'')"

definition is_letter :: "char \<Rightarrow> bool" where
  "is_letter c =
     (c \<in> set ''abcdefghijklmnopqrstuvwxyzABCDEFGHIJKLMNOPQRSTUVWXYZ'')"

definition digits_val :: "string \<Rightarrow> nat" where
  "digits_val s = foldl (\<lambda>n c. 10 * n + (of_char c - 48)) 0 s"

text \<open>An optional sign and decimal digits, nothing else.\<close>

definition decimal :: "string \<Rightarrow> int option" where
  "decimal s = (case s of
      [] \<Rightarrow> None
    | c # t \<Rightarrow>
        if c = CHR ''-'' \<and> t \<noteq> [] \<and> list_all is_digit t then Some (- int (digits_val t))
        else if c = CHR ''+'' \<and> t \<noteq> [] \<and> list_all is_digit t then Some (int (digits_val t))
        else if list_all is_digit s then Some (int (digits_val s))
        else None)"

text \<open>
  \<^verbatim>\<open>int(s)\<close> for a string: a signed decimal converts; the empty string and a word
  of ASCII letters and digits that is not a decimal are invalid in base 10; the other
  forms (blanks, underscores, other characters, texts of more than 100 characters)
  are outside the fragment.
\<close>

definition ref_int_of_str :: "string \<Rightarrow> error + int" where
  "ref_int_of_str s =
     (if length s > 100 then Inl unmodelled
      else case decimal s of
        Some n \<Rightarrow> Inr n
      | None \<Rightarrow>
          if list_all (\<lambda>c. is_letter c \<or> is_digit c) s
          then Inl (ValueError (''invalid literal for int() with base 10: '' @ quoted s))
          else Inl unmodelled)"

definition ref_float_of_int :: "int \<Rightarrow> error + rat" where
  "ref_float_of_int n = (if \<bar>n\<bar> \<le> 2 ^ 53 then Inr (of_int n) else Inl unmodelled)"

text \<open>\<^verbatim>\<open>float(s)\<close> for a string: a signed decimal integer other than \<open>-0\<close>.\<close>

definition ref_float_of_str :: "string \<Rightarrow> error + rat" where
  "ref_float_of_str s = (case decimal s of
      Some n \<Rightarrow> if n = 0 \<and> hd s = CHR ''-'' then Inl unmodelled else ref_float_of_int n
    | None \<Rightarrow>
        if s = [] then Inl (ValueError (''could not convert string to float: '' @ quoted s))
        else Inl unmodelled)"

text \<open>\<^verbatim>\<open>int(x)\<close> for a finite float truncates towards zero.\<close>

definition ref_int_of_float :: "rat \<Rightarrow> error + int" where
  "ref_int_of_float x = Inr (if 0 \<le> x then \<lfloor>x\<rfloor> else \<lceil>x\<rceil>)"

fun show_nat :: "nat \<Rightarrow> string" where
  "show_nat n =
     (if n < 10 then [char_of (48 + n)] else show_nat (n div 10) @ [char_of (48 + n mod 10)])"

definition show_int :: "int \<Rightarrow> string" where
  "show_int n = (if n < 0 then CHR ''-'' # show_nat (nat (- n)) else show_nat (nat n))"

text \<open>
  \<^verbatim>\<open>astype(str)\<close> on a cell: a text is itself, an integer its decimal form. The text
  given to any other cell stands for no value of CPython.
\<close>

definition ref_astype_str :: "rat pyval \<Rightarrow> string" where
  "ref_astype_str v =
     (case v of PStr s \<Rightarrow> s | PInt n \<Rightarrow> show_int n | _ \<Rightarrow> ''<unmodelled>'')"

definition skip_ws :: "string \<Rightarrow> string" where
  "skip_ws s = dropWhile (\<lambda>c. c = CHR '' '') s"

definition never_closed :: "char \<Rightarrow> error" where
  "never_closed c = SyntaxError (quoted [c] @ '' was never closed (<unknown>, line 1)'')"

definition is_plain :: "char \<Rightarrow> bool" where
  "is_plain c = (32 \<le> (of_char c :: nat) \<and> (of_char c :: nat) < 127 \<and> c \<noteq> CHR 0x5C)"

text \<open>
  A quoted string of printable ASCII without backslash, after its opening quote \<open>q\<close>.
\<close>

definition read_string :: "char \<Rightarrow> string \<Rightarrow> error + rat pyval \<times> string" where
  "read_string q s =
     (let body = takeWhile (\<lambda>c. c \<noteq> q) s; rest = dropWhile (\<lambda>c. c \<noteq> q) s
      in if \<not> list_all is_plain body then Inl unmodelled
         else if rest = []
         then Inl (SyntaxError ''unterminated string literal (detected at line 1) (<unknown>, line 1)'')
         else Inr (PStr body, tl rest))"

text \<open>A decimal integer without sign; a longer number form is outside the fragment.\<close>

definition read_number :: "string \<Rightarrow> error + rat pyval \<times> string" where
  "read_number s =
     (let ds = takeWhile is_digit s; rest = dropWhile is_digit s
      in if ds = [] \<or> (length ds > 1 \<and> hd ds = CHR ''0'') \<or> length ds > 4000
         then Inl unmodelled
         else if rest \<noteq> [] \<and> (is_letter (hd rest) \<or> hd rest \<in> set ''._'') then Inl unmodelled
         else Inr (PInt (int (digits_val ds)), rest))"

definition read_word :: "string \<Rightarrow> error + rat pyval \<times> string" where
  "read_word s =
     (let w = takeWhile (\<lambda>c. is_letter c \<or> is_digit c \<or> c = CHR ''_'') s;
          rest = dropWhile (\<lambda>c. is_letter c \<or> is_digit c \<or> c = CHR ''_'') s
      in if w = ''None'' then Inr (PNone, rest)
         else if w = ''True'' then Inr (PBool True, rest)
         else if w = ''False'' then Inr (PBool False, rest)
         else Inl unmodelled)"

text \<open>
  The reader for values: dicts with string or integer keys, lists, strings, integers,
  \<^verbatim>\<open>None\<close>, \<^verbatim>\<open>True\<close>, \<^verbatim>\<open>False\<close>, separated by blanks. The first argument
  bounds the number of calls.
\<close>

fun read_value :: "nat \<Rightarrow> string \<Rightarrow> error + rat pyval \<times> string"
  and read_dict :: "nat \<Rightarrow> string \<Rightarrow> (rat pyval \<times> rat pyval) list \<Rightarrow> error + rat pyval \<times> string"
  and read_list :: "nat \<Rightarrow> string \<Rightarrow> rat pyval list \<Rightarrow> error + rat pyval \<times> string" where
  "read_value 0 s = Inl unmodelled"
| "read_value (Suc n) s = (case skip_ws s of
      [] \<Rightarrow> Inl unmodelled
    | c # t \<Rightarrow>
        if c = CHR 0x7B then read_dict n t []
        else if c = CHR 0x5B then read_list n t []
        else if c = CHR 0x27 \<or> c = CHR 0x22 then read_string c t
        else if c = CHR ''-'' then
          (case read_number t of
             Inr (PInt k, rest) \<Rightarrow> Inr (PInt (- k), rest)
           | _ \<Rightarrow> Inl unmodelled)
        else if is_digit c then read_number (c # t)
        else if is_letter c then read_word (c # t)
        else Inl unmodelled)"
| "read_dict 0 s acc = Inl unmodelled"
| "read_dict (Suc n) s acc = (case skip_ws s of
      [] \<Rightarrow> Inl (never_closed (CHR 0x7B))
    | c # t \<Rightarrow>
        if c = CHR 0x7D then Inr (PDict acc, t)
        else bind_err (read_value n (c # t)) (\<lambda>(k, s1).
          if \<not> (case k of PStr _ \<Rightarrow> True | PInt _ \<Rightarrow> True | _ \<Rightarrow> False) then Inl unmodelled
          else case skip_ws s1 of
            [] \<Rightarrow> Inl (never_closed (CHR 0x7B))
          | c1 # t1 \<Rightarrow>
              if c1 \<noteq> CHR '':'' then Inl unmodelled
              else bind_err (read_value n t1) (\<lambda>(v, s2).
                case skip_ws s2 of
                  [] \<Rightarrow> Inl (never_closed (CHR 0x7B))
                | c2 # t2 \<Rightarrow>
                    if c2 = CHR 0x7D then Inr (PDict (AList.update k v acc), t2)
                    else if c2 = CHR '','' then read_dict n t2 (AList.update k v acc)
                    else Inl unmodelled)))"
| "read_list 0 s acc = Inl unmodelled"
| "read_list (Suc n) s acc = (case skip_ws s of
      [] \<Rightarrow> Inl (never_closed (CHR 0x5B))
    | c # t \<Rightarrow>
        if c = CHR 0x5D then Inr (PList acc, t)
        else bind_err (read_value n (c # t)) (\<lambda>(v, s1).
          case skip_ws s1 of
            [] \<Rightarrow> Inl (never_closed (CHR 0x5B))
          | c1 # t1 \<Rightarrow>
              if c1 = CHR 0x5D then Inr (PList (acc @ [v]), t1)
              else if c1 = CHR '','' then read_list n t1 (acc @ [v])
              else Inl unmodelled))"

text \<open>
  A text with more than 100 opening brackets is outside the fragment (CPython refuses
  more than 200 nested brackets).
\<close>

definition ref_literal_eval :: "string \<Rightarrow> error + rat pyval" where
  "ref_literal_eval s =
     (if length (filter (\<lambda>c. c = CHR 0x7B \<or> c = CHR 0x5B) s) > 100 then Inl unmodelled
      else bind_err (read_value (Suc (length s)) s) (\<lambda>(v, rest).
        if skip_ws rest = [] then Inr v else Inl unmodelled))"

text \<open>
  Reading a written column back. The fragment has three kinds of column. Integers and
  texts of digits are written as digits, and a column of such cells comes back as
  integers. Floats with an integer value come back as the same floats. Words of ASCII
  letters and digits that begin with a letter come back as the same texts, unless they
  are among the words pandas reads as a missing value, a truth value or a float. A
  column of any other make is outside the fragment.
\<close>

definition to_lower :: "char \<Rightarrow> char" where
  "to_lower c =
     (if c \<in> set ''ABCDEFGHIJKLMNOPQRSTUVWXYZ'' then char_of (of_char c + (32 :: nat)) else c)"

definition is_word :: "string \<Rightarrow> bool" where
  "is_word s =
     (s \<noteq> [] \<and> length s \<le> 100 \<and> is_letter (hd s) \<and>
      list_all (\<lambda>c. is_letter c \<or> is_digit c) s \<and>
      map to_lower s \<notin> set [''na'', ''nan'', ''null'', ''none'', ''true'', ''false'',
                                ''inf'', ''infinity''])"

definition int_cell :: "rat pyval \<Rightarrow> int option" where
  "int_cell c = (case c of
      PInt n \<Rightarrow> if \<bar>n\<bar> < 2 ^ 63 then Some n else None
    | PStr s \<Rightarrow>
        if s \<noteq> [] \<and> length s \<le> 18 \<and> list_all is_digit s then Some (int (digits_val s))
        else None
    | _ \<Rightarrow> None)"

definition float_cell :: "rat pyval \<Rightarrow> bool" where
  "float_cell c =
     (case c of PFloat x \<Rightarrow> x = of_int \<lfloor>x\<rfloor> \<and> \<bar>x\<bar> < 10 ^ 15 | _ \<Rightarrow> False)"

definition word_cell :: "rat pyval \<Rightarrow> bool" where
  "word_cell c = (case c of PStr s \<Rightarrow> is_word s | _ \<Rightarrow> False)"

text \<open>The conversion that the cells of one column undergo.\<close>

definition column_cast :: "rat pyval list \<Rightarrow> error + (rat pyval \<Rightarrow> rat pyval)" where
  "column_cast cells =
     (if list_all (\<lambda>c. int_cell c \<noteq> None) cells
      then Inr (\<lambda>c. case int_cell c of Some n \<Rightarrow> PInt n | None \<Rightarrow> c)
      else if list_all float_cell cells \<or> list_all word_cell cells then Inr (\<lambda>c. c)
      else Inl unmodelled)"

definition ref_read_csv :: "rat snapshot_row list \<Rightarrow> error + rat snapshot_row list" where
  "ref_read_csv rows =
     bind_err (column_cast (map r_matchId rows)) (\<lambda>k1.
     bind_err (column_cast (map r_timestamp rows)) (\<lambda>k2.
     bind_err (column_cast (map r_timeAgo rows)) (\<lambda>k3.
     bind_err (column_cast (map r_club_id rows)) (\<lambda>k4.
     bind_err (column_cast (map r_player_id rows)) (\<lambda>k5.
     bind_err (column_cast (map r_player_name rows)) (\<lambda>k6.
     bind_err (column_cast (map r_position rows)) (\<lambda>k7.
     bind_err (column_cast (map r_rating rows)) (\<lambda>k8.
     bind_err (column_cast (map r_goals rows)) (\<lambda>k9.
     bind_err (column_cast (map r_assists rows)) (\<lambda>k10.
     bind_err (column_cast (map r_shots rows)) (\<lambda>k11.
     bind_err (column_cast (map r_passes_made rows)) (\<lambda>k12.
     bind_err (column_cast (map r_pass_attempts rows)) (\<lambda>k13.
     bind_err (column_cast (map r_tackles_made rows)) (\<lambda>k14.
     bind_err (column_cast (map r_tackle_attempts rows)) (\<lambda>k15.
     bind_err (column_cast (map r_saves rows)) (\<lambda>k16.
     bind_err (column_cast (map r_seconds_played rows)) (\<lambda>k17.
     bind_err (column_cast (map r_score rows)) (\<lambda>k18.
     Inr (map (\<lambda>r.
       \<lparr> r_matchId = k1 (r_matchId r), r_timestamp = k2 (r_timestamp r),
         r_timeAgo = k3 (r_timeAgo r), r_club_id = k4 (r_club_id r),
         r_player_id = k5 (r_player_id r), r_player_name = k6 (r_player_name r),
         r_position = k7 (r_position r), r_rating = k8 (r_rating r),
         r_goals = k9 (r_goals r), r_assists = k10 (r_assists r),
         r_shots = k11 (r_shots r), r_passes_made = k12 (r_passes_made r),
         r_pass_attempts = k13 (r_pass_attempts r),
         r_tackles_made = k14 (r_tackles_made r),
         r_tackle_attempts = k15 (r_tackle_attempts r), r_saves = k16 (r_saves r),
         r_seconds_played = k17 (r_seconds_played r), r_score = k18 (r_score r) \<rparr>) rows)
     ))))))))))))))))))"

definition py :: "rat builtins" where
  "py = \<lparr> literal_eval = ref_literal_eval, int_of_str = ref_int_of_str,
          int_of_bytes = (\<lambda>s. Inl unmodelled), int_of_float = ref_int_of_float,
          float_of_int = ref_float_of_int, float_of_str = ref_float_of_str,
          float_of_bytes = (\<lambda>s. Inl unmodelled), astype_str = ref_astype_str,
          read_csv = ref_read_csv \<rparr>"

section \<open>Worked inputs\<close>

definition stat :: "string \<Rightarrow> string \<Rightarrow> int \<Rightarrow> rat PlayerStats" where
  "stat cid pid sc =
     \<lparr> player_id = PStr pid, player_name = PStr ''Unknown'', club_id = PStr cid,
       position = PStr ''Unknown'', archetype_id = PStr ''0'', rating = 0, goals = 0,
       assists = 0, shots = 0, passes_made = 0, pass_attempts = 0, tackles_made = 0,
       tackle_attempts = 0, saves = 0, seconds_played = 0, score = sc, wins = 0,
       losses = 0, red_cards = 0, user_result = 0 \<rparr>"

definition one_match :: "string \<Rightarrow> rat PlayerStats list \<Rightarrow> rat MatchData" where
  "one_match mid ps =
     \<lparr> match_id = mid, timestamp = ''T'', time_ago = ''ago'',
       players_by_club = [(PStr ''c1'', ps)] \<rparr>"

definition snap_row :: "string \<Rightarrow> string \<Rightarrow> int \<Rightarrow> rat snapshot_row" where
  "snap_row mid pid sc = row_of (one_match mid []) (stat ''c1'' pid sc)"

definition run_of :: "rat MatchData list \<Rightarrow> rat parser" where
  "run_of ms = init_parser\<lparr>matches := ms\<rparr>"

definition table_row :: "string \<Rightarrow> string \<Rightarrow> raw_row" where
  "table_row mid players_text =
     [(''matchId'', mid), (''timestamp'', ''T''), (''timeAgo'', ''2h''),
      (''players'', players_text)]"

text \<open>The example of section 8 of the specification and the match it denotes.\<close>

definition row42 :: raw_row where
  "row42 = table_row ''42'' ''{'club1': {'p1': {'playername': 'Alice', 'goals': 2}}}''"

definition alice :: "rat PlayerStats" where
  "alice = (stat ''club1'' ''p1'' 0)\<lparr>player_name := PStr ''Alice'', goals := 2\<rparr>"

definition match42 :: "rat MatchData" where
  "match42 =
     \<lparr> match_id = ''42'', timestamp = ''T'', time_ago = ''2h'',
       players_by_club = [(PStr ''club1'', [alice])] \<rparr>"

section \<open>Properties of row normalisation\<close>

subsection \<open>Results and exceptions of the steps\<close>

lemma bind_err_InrE:
  assumes "bind_err m k = Inr y"
  obtains x where "m = Inr x" and "k x = Inr y"
  using assms by (cases m) (simp_all add: bind_err_def)

lemma bind_err_InlE:
  assumes "bind_err m k = Inl e"
  obtains "m = Inl e" | x where "m = Inr x" and "k x = Inl e"
  using assms by (cases m) (simp_all add: bind_err_def)

lemma bind_err_simps:
  "bind_err (Inr x) k = k x" "bind_err (Inl e) k = Inl e"
  by (simp_all add: bind_err_def)

lemma get_dict:
  "get (PDict al) k d = Inr (case map_of al (PStr k) of None \<Rightarrow> d | Some x \<Rightarrow> x)"
  by (simp add: get_def)

lemma get_Inl_any: "get st k d = Inl e \<Longrightarrow> get st k' d' = Inl e"
  by (cases st) (simp_all add: get_def)

lemma get_Inr_InlE: "get st k d = Inr x \<Longrightarrow> get st k' d' = Inl e \<Longrightarrow> P"
  by (cases st) (simp_all add: get_def)

lemma get_Inl_iff:
  "get st k d = Inl e \<longleftrightarrow> (\<forall>al. st \<noteq> PDict al) \<and> e = no_attribute st ''get''"
  by (cases st) (auto simp: get_def)

lemma items_Inr: "items v = Inr d \<longleftrightarrow> v = PDict d"
  by (cases v) (simp_all add: items_def)


lemma int_field_dict:
  "int_field b (PDict al) k =
     py_int b (case map_of al (PStr k) of None \<Rightarrow> PInt 0 | Some v \<Rightarrow> v)"
  by (simp add: int_field_def get_dict bind_err_simps)

lemma float_field_dict:
  "float_field b (PDict al) k =
     py_float b (case map_of al (PStr k) of None \<Rightarrow> PInt 0 | Some v \<Rightarrow> v)"
  by (simp add: float_field_def get_dict bind_err_simps)

lemma player_of_Inr:
  assumes "player_of b cid pid st = Inr p"
  shows "player_id p = pid \<and> club_id p = cid \<and>
    get st ''playername'' (PStr ''Unknown'') = Inr (player_name p) \<and>
    get st ''pos'' (PStr ''Unknown'') = Inr (position p) \<and>
    get st ''archetypeid'' (PStr ''0'') = Inr (archetype_id p) \<and>
    float_field b st ''rating'' = Inr (rating p) \<and>
    int_field b st ''goals'' = Inr (goals p) \<and>
    int_field b st ''assists'' = Inr (assists p) \<and>
    int_field b st ''shots'' = Inr (shots p) \<and>
    int_field b st ''passesmade'' = Inr (passes_made p) \<and>
    int_field b st ''passattempts'' = Inr (pass_attempts p) \<and>
    int_field b st ''tacklesmade'' = Inr (tackles_made p) \<and>
    int_field b st ''tackleattempts'' = Inr (tackle_attempts p) \<and>
    int_field b st ''saves'' = Inr (saves p) \<and>
    int_field b st ''secondsPlayed'' = Inr (seconds_played p) \<and>
    int_field b st ''SCORE'' = Inr (score p) \<and>
    int_field b st ''wins'' = Inr (wins p) \<and>
    int_field b st ''losses'' = Inr (losses p) \<and>
    int_field b st ''redcards'' = Inr (red_cards p) \<and>
    int_field b st ''userResult'' = Inr (user_result p)"
  using assms unfolding player_of_def
  apply (elim bind_err_InrE)
  apply (drule sym [of "Inr _" "Inr p"])
  apply (simp only: sum.inject)
  apply (simp (no_asm_simp))
  done

text \<open>
  The exception of a player that cannot be built is the exception of one of its reads,
  and the club and player keys have no part in it.
\<close>

lemma player_of_Inl:
  assumes "player_of b cid pid st = Inl e"
  shows "player_of b cid' pid' st = Inl e \<and>
    (get st ''playername'' (PStr ''Unknown'') = Inl e \<or>
     float_field b st ''rating'' = Inl e \<or>
     (\<exists>k \<in> set int_field_keys. int_field b st k = Inl e))"
  using assms unfolding player_of_def
  apply (elim bind_err_InlE)
  apply (simp_all (no_asm_simp) add: bind_err_simps int_field_keys_def)
  apply (erule (1) get_Inr_InlE)+
  apply (simp only: sum.distinct)
  done

subsection \<open>The two loops\<close>

lemma club_players_of_Inr:
  "club_players_of b cid its = Inr ps \<Longrightarrow>
     map player_id ps = map fst its \<and> (\<forall>p \<in> set ps. club_id p = cid)"
proof (induction its arbitrary: ps)
  case Nil
  then show ?case by simp
next
  case (Cons it its)
  obtain pid st where it: "it = (pid, st)" by (cases it)
  from Cons.prems obtain p ps' where
    p: "player_of b cid pid st = Inr p" and
    ps': "club_players_of b cid its = Inr ps'" and
    ps: "ps = p # ps'"
    by (auto simp: it elim!: bind_err_InrE)
  from player_of_Inr [OF p] have "player_id p = pid" and "club_id p = cid"
    by simp_all
  with Cons.IH [OF ps'] show ?case by (simp add: ps it)
qed

lemma club_players_of_Inl:
  "club_players_of b cid its = Inl e \<Longrightarrow>
     \<exists>(pid, st) \<in> set its. player_of b cid pid st = Inl e"
proof (induction its)
  case Nil
  then show ?case by simp
next
  case (Cons it its)
  obtain pid st where it: "it = (pid, st)" by (cases it)
  from Cons.prems have
    "player_of b cid pid st = Inl e \<or> club_players_of b cid its = Inl e"
    by (auto simp: it elim!: bind_err_InlE)
  with Cons.IH show ?case by (auto simp: it)
qed

lemma set_update_cases:
  "x \<in> set (AList.update k v al) \<Longrightarrow> x = (k, v) \<or> x \<in> set al"
  by (induction al) (auto split: if_splits)

text \<open>A bucket of the result was built from a club of the parsed structure.\<close>

lemma clubs_of_Inr:
  "clubs_of b its acc = Inr out \<Longrightarrow> (c, ps) \<in> set out \<Longrightarrow>
     (c, ps) \<in> set acc \<or>
     (\<exists>cp. (c, PDict cp) \<in> set its \<and> club_players_of b c cp = Inr ps)"
proof (induction its arbitrary: acc)
  case Nil
  then show ?case by simp
next
  case (Cons it its)
  obtain cid v where it: "it = (cid, v)" by (cases it)
  from Cons.prems(1) obtain cp ps' where
    v: "v = PDict cp" and
    ps': "club_players_of b cid cp = Inr ps'" and
    rest: "clubs_of b its (AList.update cid ps' acc) = Inr out"
    by (auto simp: it items_Inr elim!: bind_err_InrE)
  from Cons.IH [OF rest Cons.prems(2)] consider
    "(c, ps) \<in> set (AList.update cid ps' acc)" |
    "\<exists>cp. (c, PDict cp) \<in> set its \<and> club_players_of b c cp = Inr ps"
    by blast
  then show ?case
  proof cases
    case 1
    from set_update_cases [OF 1] show ?thesis
      using ps' by (auto simp: it v)
  next
    case 2
    then show ?thesis by (auto simp: it)
  qed
qed

lemma parse_players_text_Inr:
  "parse_players_text b s = Inr v \<longleftrightarrow> literal_eval b s = Inr v"
  by (auto simp: parse_players_text_def split: sum.splits error.splits)

lemma row_get_Some: "map_of row c = Some s \<Longrightarrow> row_get row c = Inr s"
  by (simp add: row_get_def)

lemma row_get_Inr: "row_get row c = Inr s \<longleftrightarrow> map_of row c = Some s"
  by (simp add: row_get_def split: option.splits)

lemma parse_match_row_Inr:
  assumes "parse_match_row b row = Inr m"
  obtains ptext d where
    "map_of row ''matchId'' = Some (match_id m)"
    "map_of row ''timestamp'' = Some (timestamp m)"
    "map_of row ''timeAgo'' = Some (time_ago m)"
    "map_of row ''players'' = Some ptext"
    "literal_eval b ptext = Inr (PDict d)"
    "clubs_of b d [] = Inr (players_by_club m)"
proof -
  from assms obtain mid ts ago ptext pd d pbc where
    "row_get row ''matchId'' = Inr mid" "row_get row ''timestamp'' = Inr ts"
    "row_get row ''timeAgo'' = Inr ago" "row_get row ''players'' = Inr ptext"
    "parse_players_text b ptext = Inr pd" "items pd = Inr d" "clubs_of b d [] = Inr pbc"
    "Inr \<lparr> match_id = mid, timestamp = ts, time_ago = ago, players_by_club = pbc \<rparr> = Inr m"
    unfolding parse_match_row_def by (elim bind_err_InrE) blast
  then show ?thesis
    by (intro that [of ptext d]) (auto simp: row_get_Inr parse_players_text_Inr items_Inr)
qed

subsection \<open>The batch\<close>

lemma parse_rows_eq:
  "parse_rows b i rows ms lg =
     (ms @ concat (map (\<lambda>r. case parse_match_row b r of Inr m \<Rightarrow> [m] | Inl e \<Rightarrow> []) rows),
      lg @ concat (map (\<lambda>(j, r). case parse_match_row b r of Inr m \<Rightarrow> [] | Inl e \<Rightarrow> [(j, e)])
                     (enumerate i rows)))"
  by (induction rows arbitrary: i ms lg) (auto split: sum.splits)

text \<open>
  A row that raises is left out, is reported with its index, and the matches of the
  batch are those of the batch without it.
\<close>

lemma parse_csv_skips_failed_row:
  assumes "parse_match_row b row = Inl e"
  shows "matches (fst (parse_csv b st (pre @ row # post))) =
           matches (fst (parse_csv b st (pre @ post))) \<and>
         (length pre, e) \<in> set (snd (parse_csv b st (pre @ row # post)))"
proof -
  have "enumerate 0 (pre @ row # post) =
      enumerate 0 pre @ (length pre, row) # enumerate (Suc (length pre)) post"
    by (simp add: enumerate_append_eq)
  with assms show ?thesis
    by (simp add: parse_csv_def parse_rows_eq)
qed

subsection \<open>Where a player and an exception come from\<close>




lemma clubs_of_Inl:
  "clubs_of b its acc = Inl e \<Longrightarrow>
     \<exists>cid v. (cid, v) \<in> set its \<and>
       (items v = Inl e \<or>
        (\<exists>cp pid st. v = PDict cp \<and> (pid, st) \<in> set cp \<and> player_of b cid pid st = Inl e))"
proof (induction its arbitrary: acc)
  case Nil
  then show ?case by simp
next
  case (Cons it its)
  obtain cid v where it: "it = (cid, v)" by (cases it)
  from Cons.prems consider
    "items v = Inl e" |
    cp where "items v = Inr cp" "club_players_of b cid cp = Inl e" |
    cp ps where "items v = Inr cp" "club_players_of b cid cp = Inr ps"
      "clubs_of b its (AList.update cid ps acc) = Inl e"
    by (auto simp: it elim!: bind_err_InlE)
  then show ?case
  proof cases
    case 1
    then show ?thesis by (auto simp: it)
  next
    case 2
    from club_players_of_Inl [OF 2(2)] 2(1) show ?thesis
      by (fastforce simp: it items_Inr)
  next
    case 3
    from Cons.IH [OF 3(3)] show ?thesis by (simp add: it) blast
  qed
qed

text \<open>
  The exception of a row whose players text parses to a dict is the exception of a
  club that is not a dict or of a player that cannot be built.
\<close>

lemma parse_match_row_Inl_source:
  assumes "map_of row ''matchId'' = Some mid" and "map_of row ''timestamp'' = Some ts"
    and "map_of row ''timeAgo'' = Some ago" and "map_of row ''players'' = Some ptext"
    and "literal_eval b ptext = Inr (PDict d)" and "parse_match_row b row = Inl e"
  shows "\<exists>cid v. (cid, v) \<in> set d \<and>
       (items v = Inl e \<or>
        (\<exists>cp pid st. v = PDict cp \<and> (pid, st) \<in> set cp \<and> player_of b cid pid st = Inl e))"
proof -
  from assms(5) have "parse_players_text b ptext = Inr (PDict d)"
    by (simp add: parse_players_text_Inr)
  with assms(1-4,6) have
    "bind_err (clubs_of b d [])
       (\<lambda>pbc. Inr \<lparr> match_id = mid, timestamp = ts, time_ago = ago,
                     players_by_club = pbc \<rparr>) = Inl e"
    by (simp add: parse_match_row_def row_get_Some bind_err_simps items_def)
  then have "clubs_of b d [] = Inl e"
    by (rule bind_err_InlE) simp_all
  then show ?thesis by (rule clubs_of_Inl)
qed

subsection \<open>What normalises and what fails\<close>




text \<open>A read that raises makes the player fail, and a player that fails makes the row fail.\<close>

lemma player_of_field_failure:
  assumes "get st ''playername'' (PStr ''Unknown'') = Inl e \<or>
     float_field b st ''rating'' = Inl e \<or>
     (\<exists>k \<in> set int_field_keys. int_field b st k = Inl e)"
  shows "\<exists>e'. player_of b cid pid st = Inl e'"
proof (cases "player_of b cid pid st")
  case (Inl e')
  then show ?thesis by blast
next
  case (Inr p)
  from player_of_Inr [OF Inr] assms show ?thesis
    by (auto simp: int_field_keys_def)
qed

lemma club_players_of_all:
  "club_players_of b cid its = Inr ps \<Longrightarrow> (pid, st) \<in> set its \<Longrightarrow>
     \<exists>p. player_of b cid pid st = Inr p"
proof (induction its arbitrary: ps)
  case Nil
  then show ?case by simp
next
  case (Cons it its)
  obtain k x where it: "it = (k, x)" by (cases it)
  from Cons.prems(1) obtain q ps' where
    q: "player_of b cid k x = Inr q" and ps': "club_players_of b cid its = Inr ps'"
    by (auto simp: it elim!: bind_err_InrE)
  from Cons.prems(2) consider "(pid, st) = (k, x)" | "(pid, st) \<in> set its"
    by (auto simp: it)
  then show ?case
  proof cases
    case 1
    with q show ?thesis by auto
  next
    case 2
    from Cons.IH [OF ps' 2] show ?thesis .
  qed
qed

lemma clubs_of_all:
  "clubs_of b its acc = Inr out \<Longrightarrow> (c, v) \<in> set its \<Longrightarrow>
     \<exists>cp ps. v = PDict cp \<and> club_players_of b c cp = Inr ps"
proof (induction its arbitrary: acc)
  case Nil
  then show ?case by simp
next
  case (Cons it its)
  obtain k x where it: "it = (k, x)" by (cases it)
  from Cons.prems(1) obtain cp ps' where
    x: "x = PDict cp" and ps': "club_players_of b k cp = Inr ps'" and
    rest: "clubs_of b its (AList.update k ps' acc) = Inr out"
    by (auto simp: it items_Inr elim!: bind_err_InrE)
  from Cons.prems(2) consider "(c, v) = (k, x)" | "(c, v) \<in> set its"
    by (auto simp: it)
  then show ?case
  proof cases
    case 1
    with x ps' show ?thesis by auto
  next
    case 2
    from Cons.IH [OF rest 2] show ?thesis .
  qed
qed

lemma parse_match_row_part_failure:
  assumes "map_of row ''players'' = Some ptext" and "literal_eval b ptext = Inr (PDict d)"
    and "(c, v) \<in> set d"
    and "items v = Inl e \<or>
         (\<exists>cp k x. v = PDict cp \<and> (k, x) \<in> set cp \<and> player_of b c k x = Inl e)"
  shows "\<exists>e'. parse_match_row b row = Inl e'"
proof (cases "parse_match_row b row")
  case (Inl e')
  then show ?thesis by blast
next
  case (Inr m)
  then obtain ptext' d' where
    "map_of row ''players'' = Some ptext'" "literal_eval b ptext' = Inr (PDict d')"
    "clubs_of b d' [] = Inr (players_by_club m)"
    by (rule parse_match_row_Inr)
  with assms(1,2) have "clubs_of b d [] = Inr (players_by_club m)"
    by simp
  from clubs_of_all [OF this assms(3)] obtain cp ps where
    v: "v = PDict cp" and ps: "club_players_of b c cp = Inr ps"
    by blast
  from assms(4) show ?thesis
  proof
    assume "items v = Inl e"
    with v show ?thesis by (simp add: items_def)
  next
    assume "\<exists>cp k x. v = PDict cp \<and> (k, x) \<in> set cp \<and> player_of b c k x = Inl e"
    then obtain k x where "(k, x) \<in> set cp" "player_of b c k x = Inl e"
      using v by auto
    with club_players_of_all [OF ps] show ?thesis by fastforce
  qed
qed

text \<open>A players text that does not give a dict makes the row fail.\<close>

lemma parse_match_row_not_a_dict:
  assumes "map_of row ''matchId'' = Some mid" and "map_of row ''timestamp'' = Some ts"
    and "map_of row ''timeAgo'' = Some ago" and "map_of row ''players'' = Some ptext"
    and "\<forall>d. literal_eval b ptext \<noteq> Inr (PDict d)"
  shows "parse_match_row b row =
     Inl (case literal_eval b ptext of
            Inl (ValueError msg) \<Rightarrow> ValueError (''Could not parse players data: '' @ msg)
          | Inl (SyntaxError msg) \<Rightarrow> ValueError (''Could not parse players data: '' @ msg)
          | Inl e0 \<Rightarrow> e0
          | Inr v \<Rightarrow> no_attribute v ''items'')"
proof (cases "literal_eval b ptext")
  case (Inl e0)
  then have "parse_players_text b ptext =
      Inl (case e0 of
             ValueError msg \<Rightarrow> ValueError (''Could not parse players data: '' @ msg)
           | SyntaxError msg \<Rightarrow> ValueError (''Could not parse players data: '' @ msg)
           | _ \<Rightarrow> e0)"
    by (simp add: parse_players_text_def split: error.splits)
  with assms(1-4) Inl show ?thesis
    by (simp add: parse_match_row_def row_get_Some bind_err_simps split: error.splits)
next
  case (Inr v)
  with assms(5) have "items v = Inl (no_attribute v ''items'')"
    by (cases v) (simp_all add: items_def)
  moreover from Inr have "parse_players_text b ptext = Inr v"
    by (simp add: parse_players_text_Inr)
  ultimately show ?thesis using assms(1-4) Inr
    by (simp add: parse_match_row_def row_get_Some bind_err_simps)
qed

subsection \<open>Club buckets\<close>

text \<open>
  C9. In a match produced by normalisation every player in the bucket of club \<open>c\<close> has
  \<open>club_id = c\<close>, the player ids of the bucket are the player keys of that club in
  the parsed structure, in order, and no player record stands in the bucket of another
  club.
\<close>

theorem parse_match_row_buckets:
  assumes "parse_match_row b row = Inr m" and "(c, ps) \<in> set (players_by_club m)"
  shows "(\<forall>p \<in> set ps. club_id p = c) \<and>
    (\<exists>ptext d cp. map_of row ''players'' = Some ptext \<and>
       literal_eval b ptext = Inr (PDict d) \<and> (c, PDict cp) \<in> set d \<and>
       map player_id ps = map fst cp) \<and>
    (\<forall>c' ps'. (c', ps') \<in> set (players_by_club m) \<and> c' \<noteq> c \<longrightarrow> set ps \<inter> set ps' = {})"
proof -
  from assms(1) obtain ptext d where
    row: "map_of row ''players'' = Some ptext" "literal_eval b ptext = Inr (PDict d)" and
    clubs: "clubs_of b d [] = Inr (players_by_club m)"
    by (rule parse_match_row_Inr)
  have bucket: "\<exists>cp. (k, PDict cp) \<in> set d \<and> club_players_of b k cp = Inr qs"
    if "(k, qs) \<in> set (players_by_club m)" for k qs
    using clubs_of_Inr [OF clubs that] by simp
  from bucket [OF assms(2)] obtain cp where
    cp: "(c, PDict cp) \<in> set d" "club_players_of b c cp = Inr ps"
    by blast
  from club_players_of_Inr [OF cp(2)] have
    ids: "map player_id ps = map fst cp" and own: "\<forall>p \<in> set ps. club_id p = c"
    by simp_all
  have other: "set ps \<inter> set ps' = {}"
    if "(c', ps') \<in> set (players_by_club m)" and "c' \<noteq> c" for c' ps'
  proof -
    from bucket [OF that(1)] obtain cp' where "club_players_of b c' cp' = Inr ps'"
      by blast
    from club_players_of_Inr [OF this] have "\<forall>p \<in> set ps'. club_id p = c'"
      by simp
    with own that(2) show ?thesis by auto
  qed
  from own row cp(1) ids other show ?thesis by blast
qed

theorem parse_match_row_buckets_witness:
  "parse_match_row py row42 = Inr match42 \<and>
   (PStr ''club1'', [alice]) \<in> set (players_by_club match42) \<and>
   club_id alice = PStr ''club1'' \<and>
   (\<exists>ptext d cp. map_of row42 ''players'' = Some ptext \<and>
      literal_eval py ptext = Inr (PDict d) \<and> (PStr ''club1'', PDict cp) \<in> set d \<and>
      map player_id [alice] = map fst cp)"
proof -
  have r: "parse_match_row py row42 = Inr match42"
    by code_simp
  have m: "(PStr ''club1'', [alice]) \<in> set (players_by_club match42)"
    by (simp add: match42_def)
  from parse_match_row_buckets [OF r m] r m show ?thesis
    by simp
qed

subsection \<open>Defaults\<close>



subsection \<open>A players field that does not give a mapping\<close>

text \<open>
  C5, as amended. A row whose players text does not give a dict raises, and the batch
  recovers per row: it reports the exception with the index of the row, skips the row,
  and its matches are those of the batch without that row. The exception is the
  \<^verbatim>\<open>ValueError\<close> for a malformed players field, which carries the parser's message,
  only when the literal parser raised \<^verbatim>\<open>ValueError\<close> or \<^verbatim>\<open>SyntaxError\<close>. Any other
  exception of the parser is raised as it is, and a text that parses to a value that
  is not a dict raises the \<^verbatim>\<open>AttributeError\<close> of \<^verbatim>\<open>.items()\<close>. A club that is not a
  dict, or a player that cannot be built, makes the row raise as well, and every row
  that raises is recovered in the same way.
\<close>

theorem parse_csv_skips_malformed_players:
  "(map_of row ''matchId'' = Some mid \<and> map_of row ''timestamp'' = Some ts \<and>
    map_of row ''timeAgo'' = Some ago \<and> map_of row ''players'' = Some ptext \<and>
    (\<forall>d. literal_eval b ptext \<noteq> Inr (PDict d)) \<and>
    e = (case literal_eval b ptext of
           Inl (ValueError msg) \<Rightarrow> ValueError (''Could not parse players data: '' @ msg)
         | Inl (SyntaxError msg) \<Rightarrow> ValueError (''Could not parse players data: '' @ msg)
         | Inl e0 \<Rightarrow> e0
         | Inr v \<Rightarrow> no_attribute v ''items'') \<longrightarrow>
      parse_match_row b row = Inl e \<and>
      matches (fst (parse_csv b st (pre @ row # post))) =
        matches (fst (parse_csv b st (pre @ post))) \<and>
      (length pre, e) \<in> set (snd (parse_csv b st (pre @ row # post)))) \<and>
   (map_of row ''players'' = Some ptext \<and> literal_eval b ptext = Inr (PDict d) \<and>
    (c, v) \<in> set d \<and>
    (items v = Inl e1 \<or>
     (\<exists>cp k x. v = PDict cp \<and> (k, x) \<in> set cp \<and> player_of b c k x = Inl e1)) \<longrightarrow>
      (\<exists>e'. parse_match_row b row = Inl e')) \<and>
   (parse_match_row b row = Inl e' \<longrightarrow>
      matches (fst (parse_csv b st (pre @ row # post))) =
        matches (fst (parse_csv b st (pre @ post))) \<and>
      (length pre, e') \<in> set (snd (parse_csv b st (pre @ row # post))))"
proof (intro conjI impI)
  assume a: "map_of row ''matchId'' = Some mid \<and> map_of row ''timestamp'' = Some ts \<and>
    map_of row ''timeAgo'' = Some ago \<and> map_of row ''players'' = Some ptext \<and>
    (\<forall>d. literal_eval b ptext \<noteq> Inr (PDict d)) \<and>
    e = (case literal_eval b ptext of
           Inl (ValueError msg) \<Rightarrow> ValueError (''Could not parse players data: '' @ msg)
         | Inl (SyntaxError msg) \<Rightarrow> ValueError (''Could not parse players data: '' @ msg)
         | Inl e0 \<Rightarrow> e0
         | Inr v \<Rightarrow> no_attribute v ''items'')"
  then have r: "parse_match_row b row = Inl e"
    using parse_match_row_not_a_dict [of row mid ts ago ptext b] by simp
  from r show "parse_match_row b row = Inl e" .
  from parse_csv_skips_failed_row [OF r] show
    "matches (fst (parse_csv b st (pre @ row # post))) =
       matches (fst (parse_csv b st (pre @ post)))"
    and "(length pre, e) \<in> set (snd (parse_csv b st (pre @ row # post)))"
    by simp_all
next
  assume "map_of row ''players'' = Some ptext \<and> literal_eval b ptext = Inr (PDict d) \<and>
    (c, v) \<in> set d \<and>
    (items v = Inl e1 \<or>
     (\<exists>cp k x. v = PDict cp \<and> (k, x) \<in> set cp \<and> player_of b c k x = Inl e1))"
  then show "\<exists>e'. parse_match_row b row = Inl e'"
    using parse_match_row_part_failure [of row ptext b d c v e1] by blast
next
  assume r: "parse_match_row b row = Inl e'"
  from parse_csv_skips_failed_row [OF r] show
    "matches (fst (parse_csv b st (pre @ row # post))) =
       matches (fst (parse_csv b st (pre @ post)))"
    and "(length pre, e') \<in> set (snd (parse_csv b st (pre @ row # post)))"
    by simp_all
qed

theorem parse_csv_skips_malformed_players_witness:
  "literal_eval py ''{'club1': {'p1': {'goals': 2}}'' =
     Inl (SyntaxError (quoted ''{'' @ '' was never closed (<unknown>, line 1)'')) \<and>
   parse_match_row py (table_row ''7'' ''{'club1': {'p1': {'goals': 2}}'') =
     Inl (ValueError (''Could not parse players data: '' @ quoted ''{'' @
                      '' was never closed (<unknown>, line 1)'')) \<and>
   matches (fst (parse_csv py init_parser
     [row42, table_row ''7'' ''{'club1': {'p1': {'goals': 2}}'', row42])) =
     [match42, match42] \<and>
   (1, ValueError (''Could not parse players data: '' @ quoted ''{'' @
                   '' was never closed (<unknown>, line 1)''))
     \<in> set (snd (parse_csv py init_parser
           [row42, table_row ''7'' ''{'club1': {'p1': {'goals': 2}}'', row42])) \<and>
   literal_eval py ''[1, 2]'' = Inr (PList [PInt 1, PInt 2]) \<and>
   parse_match_row py (table_row ''8'' ''[1, 2]'') =
     Inl (no_attribute (PList [PInt 1, PInt 2] :: rat pyval) ''items'') \<and>
   matches (fst (parse_csv py init_parser [row42, table_row ''8'' ''[1, 2]'', row42])) =
     [match42, match42] \<and>
   (1, no_attribute (PList [PInt 1, PInt 2] :: rat pyval) ''items'')
     \<in> set (snd (parse_csv py init_parser [row42, table_row ''8'' ''[1, 2]'', row42]))"
proof -
  let ?bad = "table_row ''7'' ''{'club1': {'p1': {'goals': 2}}''"
  let ?msg = "quoted ''{'' @ '' was never closed (<unknown>, line 1)''"
  let ?lst = "table_row ''8'' ''[1, 2]''"
  have l: "literal_eval py ''{'club1': {'p1': {'goals': 2}}'' = Inl (SyntaxError ?msg)"
    by code_simp
  have l2: "literal_eval py ''[1, 2]'' = Inr (PList [PInt 1, PInt 2])"
    by code_simp
  have c: "map_of ?bad ''matchId'' = Some ''7''" "map_of ?bad ''timestamp'' = Some ''T''"
    "map_of ?bad ''timeAgo'' = Some ''2h''"
    "map_of ?bad ''players'' = Some ''{'club1': {'p1': {'goals': 2}}''"
    by (simp_all add: table_row_def)
  have c2: "map_of ?lst ''matchId'' = Some ''8''" "map_of ?lst ''timestamp'' = Some ''T''"
    "map_of ?lst ''timeAgo'' = Some ''2h''" "map_of ?lst ''players'' = Some ''[1, 2]''"
    by (simp_all add: table_row_def)
  have g: "matches (fst (parse_csv py init_parser ([row42] @ [row42]))) = [match42, match42]"
    by code_simp
  have 1: "parse_match_row py ?bad =
      Inl (ValueError (''Could not parse players data: '' @ ?msg)) \<and>
    matches (fst (parse_csv py init_parser ([row42] @ ?bad # [row42]))) =
      matches (fst (parse_csv py init_parser ([row42] @ [row42]))) \<and>
    (length [row42], ValueError (''Could not parse players data: '' @ ?msg))
      \<in> set (snd (parse_csv py init_parser ([row42] @ ?bad # [row42])))"
    by (rule parse_csv_skips_malformed_players
        [where b = py and row = ?bad and st = init_parser and pre = "[row42]"
           and post = "[row42]" and mid = "''7''" and ts = "''T''" and ago = "''2h''"
           and ptext = "''{'club1': {'p1': {'goals': 2}}''", THEN conjunct1, THEN mp])
      (simp add: c l)
  have 2: "parse_match_row py ?lst =
      Inl (no_attribute (PList [PInt 1, PInt 2] :: rat pyval) ''items'') \<and>
    matches (fst (parse_csv py init_parser ([row42] @ ?lst # [row42]))) =
      matches (fst (parse_csv py init_parser ([row42] @ [row42]))) \<and>
    (length [row42], no_attribute (PList [PInt 1, PInt 2] :: rat pyval) ''items'')
      \<in> set (snd (parse_csv py init_parser ([row42] @ ?lst # [row42])))"
    by (rule parse_csv_skips_malformed_players
        [where b = py and row = ?lst and st = init_parser and pre = "[row42]"
           and post = "[row42]" and mid = "''8''" and ts = "''T''" and ago = "''2h''"
           and ptext = "''[1, 2]''", THEN conjunct1, THEN mp])
      (simp add: c2 l2)
  from 1 2 g l l2 show ?thesis by simp
qed

text \<open>
  C5 as stated fails: the players text \<open>[1, 2]\<close> is not a nested mapping, and the row
  raises the \<^verbatim>\<open>AttributeError\<close> of \<^verbatim>\<open>.items()\<close>, not the error for a malformed
  players field.
\<close>

theorem list_players_text_raises_attribute_error:
  "literal_eval py ''[1, 2]'' = Inr (PList [PInt 1, PInt 2]) \<and>
   parse_match_row py (table_row ''8'' ''[1, 2]'') =
     Inl (AttributeError (quoted ''list'' @ '' object has no attribute '' @ quoted ''items'')) \<and>
   parse_csv py init_parser [table_row ''8'' ''[1, 2]''] =
     (init_parser,
      [(0, AttributeError (quoted ''list'' @ '' object has no attribute '' @ quoted ''items''))])"
  by code_simp

subsection \<open>Coercion\<close>

text \<open>
  C7, as amended. For a player object that is a dict, the rating is
  \<^verbatim>\<open>float(v)\<close> and every integer field is \<^verbatim>\<open>int(v)\<close> of the value \<open>v\<close> under
  its key, or of \<open>0\<close> when the key is absent. A value that \<^verbatim>\<open>float\<close> or
  \<^verbatim>\<open>int\<close> rejects makes its player fail, and with it the row, wherever in the row
  the player stands. When the player cannot be built, the exception is the one raised
  by \<^verbatim>\<open>.get\<close>, \<^verbatim>\<open>float\<close> or \<^verbatim>\<open>int\<close> itself, and it is the same whatever the
  club key and the player key are. The exception of a row whose players text parses to
  a dict is such an exception of one of its players, or that of a club that is not a
  dict. A row that raises is reported by the batch with its row index and skipped.
\<close>

theorem player_of_coercion:
  "(player_of b cid pid (PDict al) = Inr p \<longrightarrow>
      py_float b (case map_of al (PStr ''rating'') of None \<Rightarrow> PInt 0 | Some v \<Rightarrow> v) =
        Inr (rating p) \<and>
      map (\<lambda>k. py_int b (case map_of al (PStr k) of None \<Rightarrow> PInt 0 | Some v \<Rightarrow> v))
        int_field_keys =
      map Inr [goals p, assists p, shots p, passes_made p, pass_attempts p, tackles_made p,
               tackle_attempts p, saves p, seconds_played p, score p, wins p, losses p,
               red_cards p, user_result p]) \<and>
   (player_of b cid pid st = Inl e \<longrightarrow>
      player_of b cid' pid' st = Inl e \<and>
      (e = no_attribute st ''get'' \<or> float_field b st ''rating'' = Inl e \<or>
       (\<exists>k \<in> set int_field_keys. int_field b st k = Inl e))) \<and>
   (float_field b st ''rating'' = Inl e \<or>
    (\<exists>k \<in> set int_field_keys. int_field b st k = Inl e) \<longrightarrow>
      (\<exists>e'. player_of b cid pid st = Inl e')) \<and>
   (map_of row ''players'' = Some ptext \<and> literal_eval b ptext = Inr (PDict d) \<and>
    (c, PDict cp) \<in> set d \<and> (k, x) \<in> set cp \<and>
    (float_field b x ''rating'' = Inl e \<or>
     (\<exists>j \<in> set int_field_keys. int_field b x j = Inl e)) \<longrightarrow>
      (\<exists>e'. parse_match_row b row = Inl e')) \<and>
   (map_of row ''matchId'' = Some mid \<and> map_of row ''timestamp'' = Some ts \<and>
    map_of row ''timeAgo'' = Some ago \<and> map_of row ''players'' = Some ptext \<and>
    literal_eval b ptext = Inr (PDict d) \<and> parse_match_row b row = Inl e \<longrightarrow>
      (\<exists>c v. (c, v) \<in> set d \<and>
         (items v = Inl e \<or>
          (\<exists>cp k x. v = PDict cp \<and> (k, x) \<in> set cp \<and> player_of b c k x = Inl e)))) \<and>
   (parse_match_row b row = Inl e \<longrightarrow>
      matches (fst (parse_csv b s0 (pre @ row # post))) =
        matches (fst (parse_csv b s0 (pre @ post))) \<and>
      (length pre, e) \<in> set (snd (parse_csv b s0 (pre @ row # post))))"
proof (intro conjI impI)
  assume a: "player_of b cid pid (PDict al) = Inr p"
  note f = player_of_Inr [OF a, unfolded int_field_dict float_field_dict]
  from f show
    "py_float b (case map_of al (PStr ''rating'') of None \<Rightarrow> PInt 0 | Some v \<Rightarrow> v) =
       Inr (rating p)"
    by simp
  from f show
    "map (\<lambda>k. py_int b (case map_of al (PStr k) of None \<Rightarrow> PInt 0 | Some v \<Rightarrow> v))
       int_field_keys =
     map Inr [goals p, assists p, shots p, passes_made p, pass_attempts p, tackles_made p,
              tackle_attempts p, saves p, seconds_played p, score p, wins p, losses p,
              red_cards p, user_result p]"
    by (simp add: int_field_keys_def)
next
  assume a: "player_of b cid pid st = Inl e"
  from player_of_Inl [OF a, of cid' pid'] show "player_of b cid' pid' st = Inl e"
    by simp
  from player_of_Inl [OF a, of cid pid] show
    "e = no_attribute st ''get'' \<or> float_field b st ''rating'' = Inl e \<or>
     (\<exists>k \<in> set int_field_keys. int_field b st k = Inl e)"
    by (auto simp: get_Inl_iff)
next
  assume "float_field b st ''rating'' = Inl e \<or>
    (\<exists>k \<in> set int_field_keys. int_field b st k = Inl e)"
  then show "\<exists>e'. player_of b cid pid st = Inl e'"
    by (intro player_of_field_failure [of st _ b cid pid]) blast
next
  assume a: "map_of row ''players'' = Some ptext \<and> literal_eval b ptext = Inr (PDict d) \<and>
    (c, PDict cp) \<in> set d \<and> (k, x) \<in> set cp \<and>
    (float_field b x ''rating'' = Inl e \<or>
     (\<exists>j \<in> set int_field_keys. int_field b x j = Inl e))"
  then have "\<exists>e1. player_of b c k x = Inl e1"
    by (intro player_of_field_failure [of x _ b c k]) blast
  then obtain e1 where "player_of b c k x = Inl e1" ..
  with a show "\<exists>e'. parse_match_row b row = Inl e'"
    by (intro parse_match_row_part_failure [of row ptext b d c "PDict cp" e1]) auto
next
  assume "map_of row ''matchId'' = Some mid \<and> map_of row ''timestamp'' = Some ts \<and>
    map_of row ''timeAgo'' = Some ago \<and> map_of row ''players'' = Some ptext \<and>
    literal_eval b ptext = Inr (PDict d) \<and> parse_match_row b row = Inl e"
  then show "\<exists>c v. (c, v) \<in> set d \<and>
         (items v = Inl e \<or>
          (\<exists>cp k x. v = PDict cp \<and> (k, x) \<in> set cp \<and> player_of b c k x = Inl e))"
    using parse_match_row_Inl_source [of row mid ts ago ptext b d e] by blast
next
  assume a: "parse_match_row b row = Inl e"
  from parse_csv_skips_failed_row [OF a] show
    "matches (fst (parse_csv b s0 (pre @ row # post))) =
       matches (fst (parse_csv b s0 (pre @ post)))"
    and "(length pre, e) \<in> set (snd (parse_csv b s0 (pre @ row # post)))"
    by simp_all
qed

theorem player_of_coercion_witness:
  "player_of py (PStr ''c1'') (PStr ''p1'')
     (PDict [(PStr ''rating'', PInt 7), (PStr ''goals'', PFloat (5 / 2)),
             (PStr ''assists'', PStr ''3'')]) =
     Inr ((stat ''c1'' ''p1'' 0)\<lparr>rating := 7, goals := 2, assists := 3\<rparr>) \<and>
   py_int py (PFloat (5 / 2)) = Inr 2 \<and> py_int py (PFloat (- 5 / 2)) = Inr (- 2) \<and>
   py_int py (PStr ''3'') = Inr 3 \<and> py_float py (PInt 7) = Inr 7 \<and>
   player_of py (PStr ''c1'') (PStr ''p1'') (PDict [(PStr ''goals'', PNone)]) =
     Inl (int_type_error (PNone :: rat pyval)) \<and>
   player_of py (PStr ''c2'') (PStr ''p2'') (PDict [(PStr ''goals'', PNone)]) =
     Inl (int_type_error (PNone :: rat pyval)) \<and>
   int_field py (PDict [(PStr ''goals'', PNone)]) ''goals'' =
     Inl (int_type_error (PNone :: rat pyval)) \<and>
   literal_eval py ''{'c1': {'p0': {}, 'p1': {'goals': 'abc'}}}'' =
     Inr (PDict [(PStr ''c1'',
            PDict [(PStr ''p0'', PDict []),
                   (PStr ''p1'', PDict [(PStr ''goals'', PStr ''abc'')])])]) \<and>
   int_field py (PDict [(PStr ''goals'', PStr ''abc'')]) ''goals'' =
     Inl (ValueError (''invalid literal for int() with base 10: '' @ quoted ''abc'')) \<and>
   (\<exists>e'. parse_match_row py
           (table_row ''42'' ''{'c1': {'p0': {}, 'p1': {'goals': 'abc'}}}'') = Inl e')"
proof -
  let ?al = "[(PStr ''rating'', PInt 7), (PStr ''goals'', PFloat (5 / 2)),
             (PStr ''assists'', PStr ''3'')] :: (rat pyval \<times> rat pyval) list"
  let ?p = "(stat ''c1'' ''p1'' 0)\<lparr>rating := 7, goals := 2, assists := 3\<rparr>"
  let ?bad = "PDict [(PStr ''goals'', PNone)] :: rat pyval"
  let ?e = "int_type_error (PNone :: rat pyval)"
  let ?x = "PDict [(PStr ''goals'', PStr ''abc'')] :: rat pyval"
  let ?cp = "[(PStr ''p0'', PDict []), (PStr ''p1'', ?x)] :: (rat pyval \<times> rat pyval) list"
  let ?d = "[(PStr ''c1'', PDict ?cp)] :: (rat pyval \<times> rat pyval) list"
  let ?row = "table_row ''42'' ''{'c1': {'p0': {}, 'p1': {'goals': 'abc'}}}''"
  let ?v = "ValueError (''invalid literal for int() with base 10: '' @ quoted ''abc'')"
  have ok: "player_of py (PStr ''c1'') (PStr ''p1'') (PDict ?al) = Inr ?p"
    by code_simp
  have ko: "player_of py (PStr ''c1'') (PStr ''p1'') ?bad = Inl ?e"
    by code_simp
  have v: "py_int py (PFloat (5 / 2)) = Inr 2" "py_int py (PFloat (- 5 / 2)) = Inr (- 2)"
    "py_int py (PStr ''3'') = Inr 3" "py_float py (PInt 7) = Inr 7"
    "int_field py ?bad ''goals'' = Inl ?e"
    by code_simp+
  note T = player_of_coercion
    [where b = py and cid = "PStr ''c1''" and pid = "PStr ''p1''" and st = ?bad and e = ?e
       and cid' = "PStr ''c2''" and pid' = "PStr ''p2''"]
  from T [THEN conjunct2, THEN conjunct1, THEN mp, OF ko]
  have same: "player_of py (PStr ''c2'') (PStr ''p2'') ?bad = Inl ?e"
    by simp
  have l: "literal_eval py ''{'c1': {'p0': {}, 'p1': {'goals': 'abc'}}}'' = Inr (PDict ?d)"
    by code_simp
  have f: "int_field py ?x ''goals'' = Inl ?v"
    by code_simp
  have r: "map_of ?row ''players'' = Some ''{'c1': {'p0': {}, 'p1': {'goals': 'abc'}}}''"
    by (simp add: table_row_def)
  have k: "''goals'' \<in> set int_field_keys"
    by (simp add: int_field_keys_def)
  have fails: "\<exists>e'. parse_match_row py ?row = Inl e'"
    by (rule player_of_coercion
        [where b = py and row = ?row and d = ?d and c = "PStr ''c1''" and cp = ?cp
           and k = "PStr ''p1''" and x = ?x and e = ?v
           and ptext = "''{'c1': {'p0': {}, 'p1': {'goals': 'abc'}}}''",
          THEN conjunct2, THEN conjunct2, THEN conjunct2, THEN conjunct1, THEN mp])
      (use r l f k in auto)
  show ?thesis
    by (insert ok ko v same l f fails, intro conjI; (assumption | simp))
qed

text \<open>
  C7 as stated fails: a bad \<open>goals\<close> of player \<open>p1\<close> in club \<open>c1\<close> and a bad
  \<open>assists\<close> of player \<open>p2\<close> in club \<open>c2\<close> raise the same exception, which names
  the rejected text only, and the batch adds the row index, nothing more.
\<close>

theorem coercion_error_names_no_field:
  "parse_match_row py (table_row ''42'' ''{'c1': {'p1': {'goals': 'abc'}}}'') =
     Inl (ValueError (''invalid literal for int() with base 10: '' @ quoted ''abc'')) \<and>
   parse_match_row py (table_row ''42'' ''{'c2': {'p2': {'assists': 'abc'}}}'') =
     Inl (ValueError (''invalid literal for int() with base 10: '' @ quoted ''abc'')) \<and>
   parse_csv py init_parser [table_row ''42'' ''{'c1': {'p1': {'goals': 'abc'}}}''] =
     (init_parser,
      [(0, ValueError (''invalid literal for int() with base 10: '' @ quoted ''abc''))]) \<and>
   parse_csv py init_parser [table_row ''42'' ''{'c2': {'p2': {'assists': 'abc'}}}''] =
     (init_parser,
      [(0, ValueError (''invalid literal for int() with base 10: '' @ quoted ''abc''))])"
  by code_simp

section \<open>Properties of the snapshot merge\<close>

subsection \<open>Dropping duplicates, keeping the last\<close>

lemma drop_duplicates_keys: "row_key ` set (drop_duplicates xs) = row_key ` set xs"
  by (induction xs) auto

lemma drop_duplicates_subset: "set (drop_duplicates xs) \<subseteq> set xs"
  by (induction xs) auto

lemma distinct_drop_duplicates: "distinct (map row_key (drop_duplicates xs))"
proof (induction xs)
  case Nil
  show ?case by simp
next
  case (Cons r rs)
  have "row_key r \<notin> row_key ` set rs \<Longrightarrow> row_key r \<notin> row_key ` set (drop_duplicates rs)"
    by (simp add: drop_duplicates_keys)
  with Cons show ?case by simp
qed

lemma drop_duplicates_id: "distinct (map row_key xs) \<Longrightarrow> drop_duplicates xs = xs"
  by (induction xs) auto

lemma drop_duplicates_append:
  "drop_duplicates (xs @ ys) =
     filter (\<lambda>r. row_key r \<notin> row_key ` set ys) (drop_duplicates xs) @ drop_duplicates ys"
  by (induction xs) (auto simp: image_Un)

lemma filter_own_keys:
  "filter (\<lambda>r. row_key r \<notin> row_key ` set ys) (drop_duplicates ys) = []"
  using drop_duplicates_subset [of ys] by (auto simp: filter_empty_conv)

lemma drop_duplicates_again:
  "drop_duplicates (drop_duplicates (xs @ ys) @ ys) = drop_duplicates (xs @ ys)"
proof -
  have "drop_duplicates (drop_duplicates (xs @ ys)) = drop_duplicates (xs @ ys)"
    by (rule drop_duplicates_id) (rule distinct_drop_duplicates)
  then have "drop_duplicates (drop_duplicates (xs @ ys) @ ys) =
      filter (\<lambda>r. row_key r \<notin> row_key ` set ys) (drop_duplicates (xs @ ys)) @ drop_duplicates ys"
    by (simp add: drop_duplicates_append [of "drop_duplicates (xs @ ys)" ys])
  also have "\<dots> = drop_duplicates (xs @ ys)"
    by (simp add: drop_duplicates_append [of xs ys] filter_own_keys)
  finally show ?thesis .
qed

text \<open>The last of the rows with a key is the one that stays.\<close>

lemma drop_duplicates_keeps_last:
  "drop_duplicates (xs @ r # ys) =
     filter (\<lambda>x. row_key x \<notin> row_key ` set (r # ys)) (drop_duplicates xs) @
     (if row_key r \<in> row_key ` set ys then drop_duplicates ys else r # drop_duplicates ys)"
  by (simp add: drop_duplicates_append [of xs "r # ys"])

subsection \<open>The merge when a snapshot is read\<close>

lemma load_Table:
  "load_most_recent_matches b (Table written) = Inr (Some df) \<longleftrightarrow> read_csv b written = Inr df"
  by (cases "read_csv b written") (simp_all add: load_most_recent_matches_def bind_err_def)

lemma update_loaded:
  "matches st \<noteq> [] \<Longrightarrow> load_most_recent_matches b f = Inr (Some df) \<Longrightarrow>
   update_most_recent_matches b st f =
     Inr (Table (drop_duplicates (df @ current_matches_data (matches st))))"
  by (simp add: update_most_recent_matches_def bind_err_def)

lemma update_first_run:
  "matches st \<noteq> [] \<Longrightarrow>
   update_most_recent_matches b st NotFound =
     Inr (if current_matches_data (matches st) = [] then NoColumns
          else Table (current_matches_data (matches st)))"
  by (simp add: update_most_recent_matches_def load_most_recent_matches_def bind_err_def)

lemma update_no_matches: "matches st = [] \<Longrightarrow> update_most_recent_matches b st f = Inr f"
  by (simp add: update_most_recent_matches_def)

text \<open>
  When a snapshot is read, the frame handed to the writer has one row per key, and a
  key that an incoming row has is held by an incoming row. The keys are those of the
  frame in memory: what the next read makes of the written text is another matter.
\<close>

lemma update_loaded_distinct_keys:
  assumes "matches st \<noteq> []" and "load_most_recent_matches b f = Inr (Some df)"
    and "update_most_recent_matches b st f = Inr (Table out)"
  shows "distinct (map row_key out)"
  using assms by (auto simp: update_loaded distinct_drop_duplicates)

lemma update_loaded_last_write_wins:
  assumes "matches st \<noteq> []" and "load_most_recent_matches b f = Inr (Some df)"
    and "update_most_recent_matches b st f = Inr (Table out)"
    and "r \<in> set out" and "row_key r \<in> row_key ` set (current_matches_data (matches st))"
  shows "r \<in> set (current_matches_data (matches st))"
proof -
  from assms(1-3) have "out = drop_duplicates (df @ current_matches_data (matches st))"
    by (simp add: update_loaded)
  with assms(4,5) have "r \<in> set (drop_duplicates (current_matches_data (matches st)))"
    by (auto simp: drop_duplicates_append)
  then show ?thesis using drop_duplicates_subset by blast
qed

text \<open>
  When a snapshot is read and the written table comes back from disk as it was
  written, merging the same run again changes nothing.
\<close>

lemma update_loaded_idempotent:
  assumes "matches st \<noteq> []" and "load_most_recent_matches b f = Inr (Some df)"
    and "update_most_recent_matches b st f = Inr (Table out)" and "read_csv b out = Inr out"
  shows "update_most_recent_matches b st (Table out) = Inr (Table out)"
proof -
  from assms(1-3) have out: "out = drop_duplicates (df @ current_matches_data (matches st))"
    by (simp add: update_loaded)
  from assms(4) have "load_most_recent_matches b (Table out) = Inr (Some out)"
    by (simp add: load_Table)
  from update_loaded [OF assms(1) this] show ?thesis
    by (simp add: out drop_duplicates_again)
qed

text \<open>
  A match id of digits is a number once read back, and no longer the key of the
  incoming row for the same match and player: both rows are written.
\<close>

lemma update_digit_ids_both_rows:
  "update_most_recent_matches py (run_of [one_match ''42'' [stat ''c1'' ''p1'' 5]])
     (Table [snap_row ''42'' ''p1'' 3]) =
   Inr (Table [(snap_row ''42'' ''p1'' 3)\<lparr>r_matchId := PInt 42\<rparr>, snap_row ''42'' ''p1'' 5])"
  by code_simp

subsection \<open>The first run\<close>

text \<open>
  C1. The claim: the merged snapshot has at most one row per (match id, player id).
  On the first run (no snapshot file) the rows of the run are written as they are, with
  no \<^verbatim>\<open>drop_duplicates\<close>: a table that lists match \<open>m1\<close> twice gives a snapshot with
  two rows for the key \<open>(m1, p1)\<close>.
\<close>

theorem update_first_run_duplicate_rows:
  "update_most_recent_matches py
     (run_of [one_match ''m1'' [stat ''c1'' ''p1'' 5], one_match ''m1'' [stat ''c1'' ''p1'' 5]])
     NotFound =
   Inr (Table [snap_row ''m1'' ''p1'' 5, snap_row ''m1'' ''p1'' 5])"
  by (simp add: update_most_recent_matches_def run_of_def init_parser_def
      load_most_recent_matches_def bind_err_def current_matches_data_def one_match_def
      snap_row_def row_of_def row_key_def)

text \<open>
  C2. The claim: merging the same matches twice gives the snapshot of merging them
  once. From the same missing \<^verbatim>\<open>drop_duplicates\<close>: the first merge of a run that
  lists match \<open>m1\<close> twice writes two rows, the second merge of the same run reads them
  back and leaves one.
\<close>

theorem update_first_run_not_idempotent:
  "update_most_recent_matches py
     (run_of [one_match ''m1'' [stat ''c1'' ''p1'' 5], one_match ''m1'' [stat ''c1'' ''p1'' 5]])
     NotFound =
   Inr (Table [snap_row ''m1'' ''p1'' 5, snap_row ''m1'' ''p1'' 5]) \<and>
   update_most_recent_matches py
     (run_of [one_match ''m1'' [stat ''c1'' ''p1'' 5], one_match ''m1'' [stat ''c1'' ''p1'' 5]])
     (Table [snap_row ''m1'' ''p1'' 5, snap_row ''m1'' ''p1'' 5]) =
   Inr (Table [snap_row ''m1'' ''p1'' 5])"
  by code_simp

subsection \<open>Row order\<close>




section \<open>Properties of new-match detection\<close>

lemma check_for_new_matches_flag:
  assumes "check_for_new_matches b st f = Inr (r, st')" and "matches st \<noteq> []"
  shows "matches st' = matches st \<and> new_matches_detected st' = r"
  using assms
  by (auto simp: check_for_new_matches_def bind_err_def Let_def
      split: sum.splits option.splits if_splits)

lemma check_for_new_matches_matches:
  assumes "check_for_new_matches b st f = Inr (r, st')"
  shows "matches st' = matches st"
  using assms
  by (auto simp: check_for_new_matches_def bind_err_def Let_def
      split: sum.splits option.splits if_splits)

text \<open>
  C10. On a run that normalised no match, detection returns \<^verbatim>\<open>False\<close> and leaves the
  object as it is, whatever is on disk: also when reading the snapshot would raise.
\<close>

theorem check_for_new_matches_empty_run:
  assumes "matches st = []"
  shows "check_for_new_matches b st f = Inr (False, st)"
  using assms by (simp add: check_for_new_matches_def)

theorem check_for_new_matches_empty_run_witness:
  "matches (run_of []) = [] \<and>
   check_for_new_matches py (run_of []) NotFound = Inr (False, run_of []) \<and>
   check_for_new_matches py (run_of []) (Unreadable (OtherException ''EmptyDataError'')) =
     Inr (False, run_of []) \<and>
   new_matches_detected (run_of []) = False"
proof -
  have e: "matches (run_of []) = []"
    by (simp add: run_of_def init_parser_def)
  show ?thesis
    using e check_for_new_matches_empty_run [OF e, of py NotFound]
      check_for_new_matches_empty_run [OF e, of py "Unreadable (OtherException ''EmptyDataError'')"]
    by (simp add: run_of_def init_parser_def)
qed

text \<open>
  C4, as amended. Detection returns one boolean and stores the same boolean in
  \<^verbatim>\<open>new_matches_detected\<close>. For a run with matches it is \<^verbatim>\<open>True\<close> when there is no
  snapshot file, and otherwise says whether some current match id is not among the match
  ids of the snapshot read from disk, taken as text (the set difference is not empty).
  The set is not returned, and nothing returned or stored tells a missing snapshot from
  a snapshot with no overlap. A snapshot that cannot be read raises.
\<close>

theorem check_for_new_matches_result:
  assumes "matches st \<noteq> []"
  shows "check_for_new_matches b st NotFound =
           Inr (True, st\<lparr>new_matches_detected := True\<rparr>) \<and>
         (load_most_recent_matches b f = Inr (Some df) \<longrightarrow>
          check_for_new_matches b st f =
            (let has_new = (set (map match_id (matches st)) -
                              set (map (\<lambda>r. astype_str b (r_matchId r)) df) \<noteq> {})
             in Inr (has_new, st\<lparr>new_matches_detected := has_new\<rparr>))) \<and>
         (load_most_recent_matches b f = Inl e \<longrightarrow> check_for_new_matches b st f = Inl e) \<and>
         check_for_new_matches b st (Unreadable e) = Inl e"
  using assms
  by (simp add: check_for_new_matches_def load_most_recent_matches_def bind_err_def Let_def)

theorem check_for_new_matches_result_witness:
  "matches (run_of [one_match ''m1'' [stat ''c1'' ''p1'' 5]]) \<noteq> [] \<and>
   load_most_recent_matches py (Table [snap_row ''m1'' ''p1'' 3]) =
     Inr (Some [snap_row ''m1'' ''p1'' 3]) \<and>
   check_for_new_matches py (run_of [one_match ''m1'' [stat ''c1'' ''p1'' 5]])
     (Table [snap_row ''m1'' ''p1'' 3]) =
   Inr (False, run_of [one_match ''m1'' [stat ''c1'' ''p1'' 5]]) \<and>
   matches (run_of [one_match ''42'' [stat ''c1'' ''p1'' 5]]) \<noteq> [] \<and>
   load_most_recent_matches py (Table [snap_row ''42'' ''p1'' 3]) =
     Inr (Some [(snap_row ''42'' ''p1'' 3)\<lparr>r_matchId := PInt 42\<rparr>]) \<and>
   check_for_new_matches py (run_of [one_match ''42'' [stat ''c1'' ''p1'' 5]])
     (Table [snap_row ''42'' ''p1'' 3]) =
   Inr (False, run_of [one_match ''42'' [stat ''c1'' ''p1'' 5]])"
proof -
  have m: "matches (run_of [one_match ''m1'' [stat ''c1'' ''p1'' 5]]) \<noteq> []"
    and m': "matches (run_of [one_match ''42'' [stat ''c1'' ''p1'' 5]]) \<noteq> []"
    by (simp_all add: run_of_def)
  have l: "load_most_recent_matches py (Table [snap_row ''m1'' ''p1'' 3]) =
      Inr (Some [snap_row ''m1'' ''p1'' 3])"
    by code_simp
  have l': "load_most_recent_matches py (Table [snap_row ''42'' ''p1'' 3]) =
      Inr (Some [(snap_row ''42'' ''p1'' 3)\<lparr>r_matchId := PInt 42\<rparr>])"
    by code_simp
  have s: "astype_str py (PStr ''m1'') = ''m1''" "astype_str py (PInt 42) = ''42''"
    by code_simp+
  have 1: "check_for_new_matches py (run_of [one_match ''m1'' [stat ''c1'' ''p1'' 5]])
      (Table [snap_row ''m1'' ''p1'' 3]) =
    Inr (False, run_of [one_match ''m1'' [stat ''c1'' ''p1'' 5]])"
    using check_for_new_matches_result [OF m, of py "Table [snap_row ''m1'' ''p1'' 3]"] l s
    by (simp add: run_of_def init_parser_def one_match_def snap_row_def row_of_def)
  have 2: "check_for_new_matches py (run_of [one_match ''42'' [stat ''c1'' ''p1'' 5]])
      (Table [snap_row ''42'' ''p1'' 3]) =
    Inr (False, run_of [one_match ''42'' [stat ''c1'' ''p1'' 5]])"
    using check_for_new_matches_result [OF m', of py "Table [snap_row ''42'' ''p1'' 3]"] l' s
    by (simp add: run_of_def init_parser_def one_match_def snap_row_def row_of_def)
  from m m' l l' 1 2 show ?thesis by simp
qed

text \<open>
  C4 as stated fails: with no snapshot file and with a snapshot that shares no match
  with the run, the caller gets the same flag and the same object.
\<close>

theorem no_snapshot_not_told_apart:
  "check_for_new_matches py (run_of [one_match ''m1'' [stat ''c1'' ''p1'' 5]]) NotFound =
     Inr (True, (run_of [one_match ''m1'' [stat ''c1'' ''p1'' 5]])\<lparr>new_matches_detected := True\<rparr>) \<and>
   check_for_new_matches py (run_of [one_match ''m1'' [stat ''c1'' ''p1'' 5]])
     (Table [snap_row ''m0'' ''p9'' 1]) =
     Inr (True, (run_of [one_match ''m1'' [stat ''c1'' ''p1'' 5]])\<lparr>new_matches_detected := True\<rparr>)"
  by code_simp

section \<open>Properties of the selection of the most recent match\<close>

lemma main_Inr:
  assumes "main b st rows f = Inr (mr, st3, f', lg)"
  obtains has_new st2 where
    "check_for_new_matches b (fst (parse_csv b st rows)) f = Inr (has_new, st2)"
    "get_most_recent_match st2 = (mr, st3)"
    "(if has_new then update_most_recent_matches b st2 f else Inr f) = Inr f'"
    "lg = snd (parse_csv b st rows)"
  using assms unfolding main_def
  by (auto split: prod.splits elim!: bind_err_InrE)

text \<open>
  C8. With no match the selection returns \<^verbatim>\<open>None\<close>. Otherwise it returns the first
  match of the list with the players of all its clubs in one list, club after club, and
  \<^verbatim>\<open>is_new\<close> is the flag of the object; after a detection on the same run that flag
  is the boolean the detection returned, and so the match that \<^verbatim>\<open>main\<close> returns
  carries the boolean of its detection.
\<close>

theorem get_most_recent_match_selects:
  "(matches st = [] \<longrightarrow> fst (get_most_recent_match st) = None) \<and>
   (matches st = m # ms \<longrightarrow>
      fst (get_most_recent_match st) =
        Some \<lparr> mr_match_id = match_id m, mr_timestamp = timestamp m,
               mr_time_ago = time_ago m,
               mr_players = concat (map snd (players_by_club m)),
               is_new = new_matches_detected st \<rparr>) \<and>
   (matches st = m # ms \<and> check_for_new_matches b st f = Inr (r, st') \<longrightarrow>
      fst (get_most_recent_match st') =
        Some \<lparr> mr_match_id = match_id m, mr_timestamp = timestamp m,
               mr_time_ago = time_ago m,
               mr_players = concat (map snd (players_by_club m)),
               is_new = r \<rparr>) \<and>
   (main b s0 rows f0 = Inr (Some mr, s3, f1, lg) \<longrightarrow>
      (\<exists>s2. check_for_new_matches b (fst (parse_csv b s0 rows)) f0 = Inr (is_new mr, s2)))"
proof (intro conjI impI)
  assume "matches st = []"
  then show "fst (get_most_recent_match st) = None"
    by (simp add: get_most_recent_match_def)
next
  assume "matches st = m # ms"
  then show "fst (get_most_recent_match st) =
        Some \<lparr> mr_match_id = match_id m, mr_timestamp = timestamp m,
               mr_time_ago = time_ago m,
               mr_players = concat (map snd (players_by_club m)),
               is_new = new_matches_detected st \<rparr>"
    by (simp add: get_most_recent_match_def get_all_players_def Let_def)
next
  assume a: "matches st = m # ms \<and> check_for_new_matches b st f = Inr (r, st')"
  then have "matches st' = m # ms \<and> new_matches_detected st' = r"
    using check_for_new_matches_flag [of b st f r st'] by simp
  then show "fst (get_most_recent_match st') =
        Some \<lparr> mr_match_id = match_id m, mr_timestamp = timestamp m,
               mr_time_ago = time_ago m,
               mr_players = concat (map snd (players_by_club m)),
               is_new = r \<rparr>"
    by (simp add: get_most_recent_match_def get_all_players_def Let_def)
next
  assume "main b s0 rows f0 = Inr (Some mr, s3, f1, lg)"
  then obtain has_new s2 where
    c: "check_for_new_matches b (fst (parse_csv b s0 rows)) f0 = Inr (has_new, s2)" and
    g: "get_most_recent_match s2 = (Some mr, s3)"
    by (rule main_Inr)
  from g have ne: "matches s2 \<noteq> []" and n: "is_new mr = new_matches_detected s2"
    by (auto simp: get_most_recent_match_def Let_def split: list.splits)
  from check_for_new_matches_matches [OF c] ne
  have "matches (fst (parse_csv b s0 rows)) \<noteq> []" by simp
  from check_for_new_matches_flag [OF c this] n have "is_new mr = has_new" by simp
  with c show "\<exists>s2. check_for_new_matches b (fst (parse_csv b s0 rows)) f0 = Inr (is_new mr, s2)"
    by blast
qed

theorem get_most_recent_match_selects_witness:
  "fst (get_most_recent_match (run_of [])) = None \<and>
   check_for_new_matches py
     (run_of [\<lparr> match_id = ''m1'', timestamp = ''T'', time_ago = ''2h'',
                players_by_club = [(PStr ''c1'', [stat ''c1'' ''p1'' 5]),
                                   (PStr ''c2'', [stat ''c2'' ''p2'' 1])] \<rparr>,
              one_match ''m0'' []]) NotFound =
     Inr (True,
       (run_of [\<lparr> match_id = ''m1'', timestamp = ''T'', time_ago = ''2h'',
                  players_by_club = [(PStr ''c1'', [stat ''c1'' ''p1'' 5]),
                                     (PStr ''c2'', [stat ''c2'' ''p2'' 1])] \<rparr>,
                one_match ''m0'' []])\<lparr>new_matches_detected := True\<rparr>) \<and>
   fst (get_most_recent_match
     ((run_of [\<lparr> match_id = ''m1'', timestamp = ''T'', time_ago = ''2h'',
                  players_by_club = [(PStr ''c1'', [stat ''c1'' ''p1'' 5]),
                                     (PStr ''c2'', [stat ''c2'' ''p2'' 1])] \<rparr>,
                one_match ''m0'' []])\<lparr>new_matches_detected := True\<rparr>)) =
     Some \<lparr> mr_match_id = ''m1'', mr_timestamp = ''T'', mr_time_ago = ''2h'',
            mr_players = [stat ''c1'' ''p1'' 5, stat ''c2'' ''p2'' 1], is_new = True \<rparr>"
proof -
  let ?m = "\<lparr> match_id = ''m1'', timestamp = ''T'', time_ago = ''2h'',
                players_by_club = [(PStr ''c1'', [stat ''c1'' ''p1'' 5]),
                                   (PStr ''c2'', [stat ''c2'' ''p2'' 1])] \<rparr>"
  let ?st = "run_of [?m, one_match ''m0'' []]"
  have c: "check_for_new_matches py ?st NotFound = Inr (True, ?st\<lparr>new_matches_detected := True\<rparr>)"
    by (simp add: check_for_new_matches_def load_most_recent_matches_def bind_err_def
        run_of_def)
  have e: "matches (run_of []) = []" and m: "matches ?st = ?m # [one_match ''m0'' []]"
    by (simp_all add: run_of_def init_parser_def)
  from get_most_recent_match_selects
    [where st = "run_of []" and m = ?m and ms = "[]"] e
  have 1: "fst (get_most_recent_match (run_of [])) = None"
    by blast
  from get_most_recent_match_selects
    [where st = ?st and m = ?m and ms = "[one_match ''m0'' []]" and b = py and f = NotFound
       and r = True and st' = "?st\<lparr>new_matches_detected := True\<rparr>"]
    m c
  have 2: "fst (get_most_recent_match (?st\<lparr>new_matches_detected := True\<rparr>)) =
     Some \<lparr> mr_match_id = ''m1'', mr_timestamp = ''T'', mr_time_ago = ''2h'',
            mr_players = [stat ''c1'' ''p1'' 5, stat ''c2'' ''p2'' 1], is_new = True \<rparr>"
    by simp
  from 1 2 c show ?thesis by simp
qed

end
